theory Spec2Isabelle
  imports Complex_Main
begin

section \<open>The flight API service: a shallow embedding\<close>

text \<open>
  The theory embeds the class \<open>FlightApiService\<close>: the token lifecycle
  (\<open>getAccessToken\<close>, \<open>loadStoredToken\<close>), the offer normaliser inside
  \<open>searchFlights\<close>, the price-history synthesiser \<open>getPriceHistory\<close> and the
  airport lookup \<open>getAirports\<close> with its hardcoded catalogue \<open>getMockAirports\<close>.

  Conventions.
  \<^item> A string is a \<open>char list\<close>, the bytes of its UTF-8 form, so that an ASCII
    character is one element; \<open>undefined\<close>/\<open>null\<close> is \<open>None\<close>.
  \<^item> An instant (the time value of a \<open>Date\<close>) is an \<open>int\<close> of milliseconds since the epoch.
    The clock readings are taken to lie in the range of \<open>Date\<close> with room for the 30
    days the history loop goes back.
  \<^item> A JavaScript Number is a \<open>jsnumber\<close>: \<open>NaN\<close>, an infinity, or a finite value given
    as a real number. Overflow to an infinity is modelled; the rounding of finite results
    is not.
  \<^item> A thrown exception is the \<open>Inl\<close> of a sum type.
  \<^item> What the code reads from its surroundings during one call (the clock, the outcome of
    each \<open>fetch\<close>, \<open>Math.random\<close>) is a field of the record \<open>io\<close>; what it
    reads from the host configuration is a field of \<open>env\<close>.
\<close>

subsection \<open>String primitives of the platform\<close>

definition toLowerCaseChar :: "char \<Rightarrow> char" where
  "toLowerCaseChar c =
     (case map_of (zip ''ABCDEFGHIJKLMNOPQRSTUVWXYZ'' ''abcdefghijklmnopqrstuvwxyz'') c of
        Some l \<Rightarrow> l
      | None \<Rightarrow> c)"

text \<open>\<open>String.prototype.toLowerCase\<close>, on the ASCII letters.\<close>

definition toLowerCase :: "string \<Rightarrow> string" where
  "toLowerCase s = map toLowerCaseChar s"

fun startsWith :: "string \<Rightarrow> string \<Rightarrow> bool" where
  "startsWith s [] = True"
| "startsWith [] (c # cs) = False"
| "startsWith (x # xs) (c # cs) = (x = c \<and> startsWith xs cs)"

text \<open>\<open>String.prototype.includes\<close>: the argument occurs as a contiguous substring.\<close>

fun includes_str :: "string \<Rightarrow> string \<Rightarrow> bool" where
  "includes_str [] sub = (sub = [])"
| "includes_str (x # xs) sub = (startsWith (x # xs) sub \<or> includes_str xs sub)"

text \<open>\<open>s.split(c)\<close> for a one-character separator: the pieces between the separators.\<close>

fun split :: "string \<Rightarrow> char \<Rightarrow> string list" where
  "split [] c = [[]]"
| "split (x # xs) c =
     (if x = c then [] # split xs c
      else (case split xs c of [] \<Rightarrow> [[x]] | p # ps \<Rightarrow> (x # p) # ps))"

text \<open>Array indexing: out of range is \<open>undefined\<close>.\<close>

definition index :: "'a list \<Rightarrow> nat \<Rightarrow> 'a option" where
  "index xs n = (if n < length xs then Some (xs ! n) else None)"

text \<open>\<open>s.substring(0, n)\<close>.\<close>

definition substring0 :: "string \<Rightarrow> nat \<Rightarrow> string" where
  "substring0 s n = take n s"

text \<open>\<open>s.replace(pat, rep)\<close> with a string pattern: the first occurrence only.\<close>

fun replace :: "string \<Rightarrow> string \<Rightarrow> string \<Rightarrow> string" where
  "replace [] pat rep = (if pat = [] then rep else [])"
| "replace (x # xs) pat rep =
     (if startsWith (x # xs) pat then rep @ drop (length pat) (x # xs)
      else x # replace xs pat rep)"

definition digitChar :: "nat \<Rightarrow> char" where
  "digitChar d = ''0123456789'' ! d"

text \<open>The decimal form of an array index, as a template literal prints it.\<close>

fun toString :: "nat \<Rightarrow> string" where
  "toString n = (if n < 10 then [digitChar n] else toString (n div 10) @ [digitChar (n mod 10)])"

declare toString.simps [simp del]

subsection \<open>Numbers\<close>

text \<open>
  A Number is \<open>NaN\<close>, one of the two infinities, or a finite value. A finite value is
  kept as the real number it stands for: the rounding of a result to the nearest double
  and underflow are not modelled, overflow is. A real result becomes an infinity when its
  magnitude reaches \<open>2^1024 - 2^970\<close>, the point from which rounding to nearest leaves
  the finite doubles.
\<close>

datatype jsnumber = NaN | PosInfinity | NegInfinity | Num real

definition overflowThreshold :: real where
  "overflowThreshold = 2 ^ 1024 - 2 ^ 970"

definition toNumber :: "real \<Rightarrow> jsnumber" where
  "toNumber x =
     (if overflowThreshold \<le> x then PosInfinity
      else if x \<le> - overflowThreshold then NegInfinity
      else Num x)"

text \<open>The sign of a Number that is not \<open>NaN\<close>: \<open>1\<close>, \<open>0\<close> or \<open>-1\<close>.\<close>

definition signOf :: "jsnumber \<Rightarrow> real" where
  "signOf a = (case a of NaN \<Rightarrow> 0 | PosInfinity \<Rightarrow> 1 | NegInfinity \<Rightarrow> - 1 | Num x \<Rightarrow> sgn x)"

definition js_add :: "jsnumber \<Rightarrow> jsnumber \<Rightarrow> jsnumber" where
  "js_add a b =
     (case a of
        NaN \<Rightarrow> NaN
      | PosInfinity \<Rightarrow> (if b = NaN \<or> b = NegInfinity then NaN else PosInfinity)
      | NegInfinity \<Rightarrow> (if b = NaN \<or> b = PosInfinity then NaN else NegInfinity)
      | Num x \<Rightarrow> (case b of Num y \<Rightarrow> toNumber (x + y) | _ \<Rightarrow> b))"

text \<open>A product with an infinity has the sign of the two factors, and is \<open>NaN\<close> when the
  other factor is zero.\<close>

definition js_mul :: "jsnumber \<Rightarrow> jsnumber \<Rightarrow> jsnumber" where
  "js_mul a b =
     (if a = NaN \<or> b = NaN then NaN
      else
        (case (a, b) of
           (Num x, Num y) \<Rightarrow> toNumber (x * y)
         | _ \<Rightarrow>
             if signOf a * signOf b = 0 then NaN
             else if 0 < signOf a * signOf b then PosInfinity
             else NegInfinity))"

text \<open>Division; the code divides by a positive array length only. A zero divisor is taken
  as the positive zero.\<close>

definition js_div :: "jsnumber \<Rightarrow> jsnumber \<Rightarrow> jsnumber" where
  "js_div a b =
     (if a = NaN \<or> b = NaN then NaN
      else
        (case (a, b) of
           (Num x, Num y) \<Rightarrow>
             if y \<noteq> 0 then toNumber (x / y)
             else if x = 0 then NaN
             else if 0 < x then PosInfinity
             else NegInfinity
         | (Num x, _) \<Rightarrow> Num 0
         | (_, Num y) \<Rightarrow> if (0 < signOf a) = (0 \<le> y) then PosInfinity else NegInfinity
         | _ \<Rightarrow> NaN))"

text \<open>\<open>Math.round\<close>: the nearest integer, a tie going up; \<open>NaN\<close> and the infinities
  stay as they are. The result is exact for a double, so no rounding is lost here.\<close>

definition Math_round :: "jsnumber \<Rightarrow> jsnumber" where
  "Math_round a = (case a of Num x \<Rightarrow> Num (of_int \<lfloor>x + 1 / 2\<rfloor>) | _ \<Rightarrow> a)"

text \<open>\<open>Math.max\<close> of two arguments: \<open>NaN\<close> as soon as one of them is.\<close>

definition Math_max :: "jsnumber \<Rightarrow> jsnumber \<Rightarrow> jsnumber" where
  "Math_max a b =
     (if a = NaN \<or> b = NaN then NaN
      else if a = PosInfinity \<or> b = PosInfinity then PosInfinity
      else
        (case (a, b) of
           (Num x, Num y) \<Rightarrow> Num (max x y)
         | (NegInfinity, _) \<Rightarrow> b
         | _ \<Rightarrow> a))"

text \<open>The comparison \<open>a >= b\<close>: false as soon as one side is \<open>NaN\<close>.\<close>

definition js_ge :: "jsnumber \<Rightarrow> jsnumber \<Rightarrow> bool" where
  "js_ge a b =
     (if a = NaN \<or> b = NaN then False
      else if a = PosInfinity \<or> b = NegInfinity then True
      else (case (a, b) of (Num x, Num y) \<Rightarrow> y \<le> x | _ \<Rightarrow> False))"

text \<open>A finite Number whose value is a whole number.\<close>

definition isInteger :: "jsnumber \<Rightarrow> bool" where
  "isInteger a = (case a of Num x \<Rightarrow> x = of_int \<lfloor>x\<rfloor> | _ \<Rightarrow> False)"

text \<open>
  The time value of \<open>new Date(v)\<close> for a Number \<open>v\<close> (\<open>TimeClip\<close>): the integer part
  of \<open>v\<close> when it is finite and within 8.64e15 milliseconds of the epoch; otherwise the
  date is invalid, which is \<open>None\<close>.
\<close>

definition TimeClip :: "jsnumber \<Rightarrow> int option" where
  "TimeClip v =
     (case v of
        Num x \<Rightarrow>
          if \<bar>x\<bar> \<le> 8640000000000000 then Some (if 0 \<le> x then \<lfloor>x\<rfloor> else \<lceil>x\<rceil>) else None
      | _ \<Rightarrow> None)"

definition isDigit :: "char \<Rightarrow> bool" where
  "isDigit c = (let n = (of_char c :: nat) in 48 \<le> n \<and> n \<le> 57)"

text \<open>
  White space in front of a numeric string: the code points TAB, LF, VT, FF, CR and
  space, and, in their UTF-8 bytes, U+00A0, U+1680, U+2000 to U+200A, U+2028, U+2029,
  U+202F, U+205F, U+3000 and U+FEFF.
\<close>

definition isWhiteSpace1 :: "char \<Rightarrow> bool" where
  "isWhiteSpace1 a = (let x = (of_char a :: nat) in x = 32 \<or> (9 \<le> x \<and> x \<le> 13))"

definition isWhiteSpace2 :: "char \<Rightarrow> char \<Rightarrow> bool" where
  "isWhiteSpace2 a b = ((of_char a :: nat) = 194 \<and> (of_char b :: nat) = 160)"

definition isWhiteSpace3 :: "char \<Rightarrow> char \<Rightarrow> char \<Rightarrow> bool" where
  "isWhiteSpace3 a b c =
     (let x = (of_char a :: nat); y = (of_char b :: nat); z = (of_char c :: nat)
      in (x = 225 \<and> y = 154 \<and> z = 128) \<or>
         (x = 226 \<and> y = 128 \<and> ((128 \<le> z \<and> z \<le> 138) \<or> z = 168 \<or> z = 169 \<or> z = 175)) \<or>
         (x = 226 \<and> y = 129 \<and> z = 159) \<or>
         (x = 227 \<and> y = 128 \<and> z = 128) \<or>
         (x = 239 \<and> y = 187 \<and> z = 191))"

fun skipWhiteSpace :: "string \<Rightarrow> string" where
  "skipWhiteSpace (a # b # c # s) =
     (if isWhiteSpace1 a then skipWhiteSpace (b # c # s)
      else if isWhiteSpace2 a b then skipWhiteSpace (c # s)
      else if isWhiteSpace3 a b c then skipWhiteSpace s
      else a # b # c # s)"
| "skipWhiteSpace [a, b] =
     (if isWhiteSpace1 a then skipWhiteSpace [b]
      else if isWhiteSpace2 a b then []
      else [a, b])"
| "skipWhiteSpace [a] = (if isWhiteSpace1 a then [] else [a])"
| "skipWhiteSpace [] = []"

text \<open>The value of a run of decimal digits, most significant first.\<close>

definition digitsValue :: "string \<Rightarrow> nat" where
  "digitsValue ds = foldl (\<lambda>acc c. 10 * acc + (of_char c - 48)) 0 ds"

text \<open>The exponent part \<open>e\<close>, \<open>e+\<close> or \<open>e-\<close> followed by digits, when the rest of the
  string starts with one; \<open>0\<close> otherwise.\<close>

definition exponentPart :: "string \<Rightarrow> int" where
  "exponentPart s =
     (case s of
        [] \<Rightarrow> 0
      | c # r \<Rightarrow>
          if c = CHR ''e'' \<or> c = CHR ''E'' then
            (case r of
               [] \<Rightarrow> 0
             | d # r' \<Rightarrow>
                 if d = CHR ''-'' then
                   (if takeWhile isDigit r' = [] then 0
                    else - int (digitsValue (takeWhile isDigit r')))
                 else if d = CHR ''+'' then int (digitsValue (takeWhile isDigit r'))
                 else int (digitsValue (takeWhile isDigit r)))
          else 0)"

definition pow10 :: "int \<Rightarrow> real" where
  "pow10 k = (if 0 \<le> k then 10 ^ nat k else 1 / 10 ^ nat (- k))"

text \<open>
  \<open>parseFloat\<close>: leading white space is skipped and a sign is read; then comes the
  literal \<open>Infinity\<close>, or the longest prefix that is a decimal literal (digits,
  fraction, exponent), whose value is turned into a Number; without either the result
  is \<open>NaN\<close>.
\<close>

definition parseFloat :: "string \<Rightarrow> jsnumber" where
  "parseFloat s =
     (let s1 = skipWhiteSpace s;
          neg = (s1 \<noteq> [] \<and> hd s1 = CHR ''-'');
          s2 = (if s1 \<noteq> [] \<and> (hd s1 = CHR ''-'' \<or> hd s1 = CHR ''+'') then tl s1 else s1);
          ip = takeWhile isDigit s2;
          s3 = dropWhile isDigit s2;
          dot = (s3 \<noteq> [] \<and> hd s3 = CHR ''.'');
          fp = (if dot then takeWhile isDigit (tl s3) else []);
          s4 = (if dot then dropWhile isDigit (tl s3) else s3);
          m = real (digitsValue ip) + real (digitsValue fp) / 10 ^ length fp;
          v = m * pow10 (exponentPart s4)
      in if startsWith s2 ''Infinity'' then (if neg then NegInfinity else PosInfinity)
         else if ip = [] \<and> fp = [] then NaN
         else toNumber (if neg then - v else v))"

subsection \<open>The provider's wire format and the application's entities\<close>

text \<open>Of \<open>AmadeusAuthResponse\<close> the code reads two fields only.\<close>

record AmadeusAuthResponse =
  access_token :: string
  expires_in :: jsnumber

text \<open>The \<open>departure\<close> and \<open>arrival\<close> objects of a segment; \<open>at'\<close> is the
  field \<open>at\<close>.\<close>

record Place =
  iataCode :: string
  at' :: string

record Aircraft =
  code :: string

record AmadeusSegment =
  departure :: Place
  arrival :: Place
  carrierCode :: string
  number :: string
  aircraft :: "Aircraft option"

record AmadeusItinerary =
  duration :: string
  segments :: "AmadeusSegment list"

record Price =
  total :: string
  currency :: string

text \<open>The offer's \<open>id\<close> is \<open>id'\<close> here; \<open>None\<close> is an absent one, which the
  normaliser provides for.\<close>

record AmadeusFlightOffer =
  id' :: "string option"
  itineraries :: "AmadeusItinerary list"
  price :: Price

text \<open>The code guards both responses against an absent \<open>data\<close> array.\<close>

record AmadeusFlightOffersResponse =
  data :: "AmadeusFlightOffer list option"

record Address =
  cityName :: string

record AmadeusLocation =
  iataCode :: string
  name :: string
  address :: "Address option"

record AmadeusLocationsResponse =
  data :: "AmadeusLocation list option"

text \<open>The \<open>departure\<close> and \<open>arrival\<close> objects of a \<open>FlightOffer\<close>.\<close>

record Endpoint =
  airport :: string
  city :: string
  time :: string
  date :: string

text \<open>\<open>baggage\<close> is never set by the service and is left out.\<close>

record FlightOffer =
  id' :: string
  airline :: string
  flightNumber :: string
  departure :: Endpoint
  arrival :: Endpoint
  duration :: string
  stops :: int
  price :: jsnumber
  currency :: string
  aircraft :: "string option"

text \<open>
  The \<open>date\<close> of a \<open>PriceHistory\<close> point is the string
  \<open>date.toISOString().split('T')[0]\<close>, the calendar date in UTC of the instant. The
  model keeps the number of that UTC day (days since the epoch) in its place: for the
  years 0000 to 9999 the strings \<open>YYYY-MM-DD\<close> are compared by \<open>localeCompare\<close> as
  their day numbers are by \<open>\<le>\<close>.
\<close>

record PriceHistory =
  date :: int
  price :: jsnumber

text \<open>An airport suggestion \<open>{code, city, name}\<close>.\<close>

record Suggestion =
  code :: string
  city :: string
  name :: string

subsection \<open>The surroundings of a call\<close>

text \<open>The outcome of \<open>await fetch(...)\<close>: the promise is rejected (no response was
  received), or there is a response with its \<open>ok\<close> flag and the outcome of
  \<open>response.json()\<close> (\<open>None\<close> when that promise is rejected).\<close>

datatype 'a fetched = Rejected | Response bool "'a option"

datatype error =
    CredentialsNotFound
  | AuthenticationFailed
  | FlightSearchFailed
  | AirportSearchFailed
  | FetchRejected
  | JsonRejected
  | TypeError
  | RangeError

text \<open>A request that was sent: the token exchange, an offer search for an origin and a
  destination, a location search for a keyword. The rest of the query string is not
  modelled.\<close>

datatype request = POST_token | GET_flight_offers string string | GET_locations string

text \<open>
  The host: the two configured secrets, the offset of local time (\<open>LocalTZA(t, isUTC)\<close>
  of ECMA-262, in milliseconds), the parser behind \<open>new Date(string)\<close> (\<open>None\<close> is
  an invalid date) and \<open>Date.prototype.toISOString\<close>.
\<close>

record env =
  VITE_AMADEUS_CLIENT_ID :: "string option"
  VITE_AMADEUS_CLIENT_SECRET :: "string option"
  LocalTZA :: "int \<Rightarrow> bool \<Rightarrow> int"
  Date_parse :: "string \<Rightarrow> int option"
  toISOString :: "int \<Rightarrow> string"

text \<open>A result of \<open>Math.random()\<close>: a number from 0 up to, and not including, 1.\<close>

typedef randomNumber = "{x :: real. 0 \<le> x \<and> x < 1}"
  morphisms randomValue RandomNumber
  by (rule exI [of _ 0]) simp

text \<open>
  What one call observes: the clock at each place the code reads it, the outcome of each
  request it can make, and \<open>Math.random()\<close>; \<open>now_loop i\<close> and \<open>random i\<close> are the
  readings in the pass of the history loop whose counter is \<open>i\<close>.
\<close>

record io =
  now_load :: int
  now_check :: int
  tokenFetch :: "AmadeusAuthResponse fetched"
  now_exchange :: int
  offersFetch :: "AmadeusFlightOffersResponse fetched"
  locationsFetch :: "AmadeusLocationsResponse fetched"
  now_loop :: "nat \<Rightarrow> int"
  random :: "nat \<Rightarrow> randomNumber"

text \<open>
  The two private fields of the service, the browser's \<open>localStorage\<close>, and the
  requests sent so far. For \<open>tokenExpiry\<close>, \<open>None\<close> is \<open>null\<close> or an invalid
  \<open>Date\<close>: the one test that reads the field, in \<open>getAccessToken\<close>, fails for both.
\<close>

record service =
  accessToken :: "string option"
  tokenExpiry :: "int option"
  localStorage :: "string \<rightharpoonup> string"
  requests :: "request list"

text \<open>Truthiness of a value that is a string or absent.\<close>

definition truthy :: "string option \<Rightarrow> bool" where
  "truthy v = (case v of None \<Rightarrow> False | Some s \<Rightarrow> s \<noteq> [])"

subsection \<open>Token management\<close>

text \<open>
  After a successful exchange the code assigns the two fields, writes the token to
  \<open>localStorage\<close> and then the expiry as \<open>toISOString()\<close>, which throws a
  \<open>RangeError\<close> for an invalid date: the call then fails with the fields and the stored
  token already written.
\<close>

definition getAccessToken :: "env \<Rightarrow> io \<Rightarrow> service \<Rightarrow> (error + string) \<times> service" where
  "getAccessToken e w s =
     (if truthy (accessToken s) \<and>
         (case tokenExpiry s of None \<Rightarrow> False | Some x \<Rightarrow> now_check w < x)
      then (Inr (the (accessToken s)), s)
      else if \<not> truthy (VITE_AMADEUS_CLIENT_ID e) \<or> \<not> truthy (VITE_AMADEUS_CLIENT_SECRET e)
      then (Inl CredentialsNotFound, s)
      else
        (let s1 = s\<lparr>requests := requests s @ [POST_token]\<rparr> in
         case tokenFetch w of
           Rejected \<Rightarrow> (Inl FetchRejected, s1)
         | Response ok body \<Rightarrow>
             if \<not> ok then (Inl AuthenticationFailed, s1)
             else
               (case body of
                  None \<Rightarrow> (Inl JsonRejected, s1)
                | Some d \<Rightarrow>
                    (let expiry =
                           TimeClip
                             (js_add (Num (real_of_int (now_exchange w)))
                                (js_mul (expires_in d) (Num 1000)));
                         s2 = s1\<lparr>accessToken := Some (access_token d),
                                 tokenExpiry := expiry,
                                 localStorage := (localStorage s1)
                                   (''amadeus_token'' \<mapsto> access_token d)\<rparr>
                     in case expiry of
                          None \<Rightarrow> (Inl RangeError, s2)
                        | Some x \<Rightarrow>
                            (Inr (access_token d),
                             s2\<lparr>localStorage := (localStorage s2)
                                  (''amadeus_token_expiry'' \<mapsto> toISOString e x)\<rparr>)))))"

definition loadStoredToken :: "env \<Rightarrow> io \<Rightarrow> service \<Rightarrow> service" where
  "loadStoredToken e w s =
     (let storedToken = localStorage s ''amadeus_token'';
          storedExpiry = localStorage s ''amadeus_token_expiry''
      in if truthy storedToken \<and> truthy storedExpiry then
           (case Date_parse e (the storedExpiry) of
              Some expiry \<Rightarrow>
                if now_load w < expiry
                then s\<lparr>accessToken := storedToken, tokenExpiry := Some expiry\<rparr>
                else s\<lparr>localStorage := (localStorage s)
                       (''amadeus_token'' := None, ''amadeus_token_expiry'' := None)\<rparr>
            | None \<Rightarrow>
                s\<lparr>localStorage := (localStorage s)
                    (''amadeus_token'' := None, ''amadeus_token_expiry'' := None)\<rparr>)
         else s)"

text \<open>A sequence of calls of \<open>getAccessToken\<close>, one for each element of the list, each
  on the state the one before left.\<close>

fun getAccessToken_calls ::
  "env \<Rightarrow> io list \<Rightarrow> service \<Rightarrow> (error + string) list \<times> service" where
  "getAccessToken_calls e [] s = ([], s)"
| "getAccessToken_calls e (w # ws) s =
     (case getAccessToken e w s of
        (r, s1) \<Rightarrow> (case getAccessToken_calls e ws s1 of (rs, s2) \<Rightarrow> (r # rs, s2)))"

subsection \<open>The offer normaliser of \<open>searchFlights\<close>\<close>

text \<open>Of the search parameters only the two airport codes are kept, for the record of
  the request.\<close>

record FlightSearchParams =
  origin :: string
  destination :: string

text \<open>
  The callback that \<open>searchFlights\<close> maps over \<open>data.data\<close>. Reading a property of
  \<open>undefined\<close> throws a \<open>TypeError\<close>: that is the case without a first itinerary,
  without a segment, and when a timestamp has no \<open>T\<close>, so that \<open>split('T')[1]\<close>
  is \<open>undefined\<close>. \<open>split\<close> never returns the empty array, so \<open>[0]\<close> is its head.
\<close>

definition normalizeOffer :: "AmadeusFlightOffer \<Rightarrow> nat \<Rightarrow> error + FlightOffer" where
  "normalizeOffer offer idx =
     (case index (itineraries offer) 0 of
        None \<Rightarrow> Inl TypeError
      | Some itinerary \<Rightarrow>
          (case (index (segments itinerary) 0,
                 if segments itinerary = [] then None
                 else index (segments itinerary) (length (segments itinerary) - 1)) of
             (Some firstSegment, Some lastSegment) \<Rightarrow>
               (case (index (split (at' (AmadeusSegment.departure firstSegment)) CHR ''T'') 1,
                      index (split (at' (AmadeusSegment.arrival lastSegment)) CHR ''T'') 1) of
                  (Some departureTime, Some arrivalTime) \<Rightarrow>
                    Inr \<lparr>FlightOffer.id' =
                           (if truthy (AmadeusFlightOffer.id' offer)
                            then the (AmadeusFlightOffer.id' offer)
                            else ''flight-'' @ toString idx),
                         airline = carrierCode firstSegment,
                         flightNumber = carrierCode firstSegment @ '' '' @ number firstSegment,
                         FlightOffer.departure =
                           \<lparr>airport = Place.iataCode (AmadeusSegment.departure firstSegment),
                            Endpoint.city = Place.iataCode (AmadeusSegment.departure firstSegment),
                            time = substring0 departureTime 5,
                            Endpoint.date =
                              hd (split (at' (AmadeusSegment.departure firstSegment)) CHR ''T'')\<rparr>,
                         FlightOffer.arrival =
                           \<lparr>airport = Place.iataCode (AmadeusSegment.arrival lastSegment),
                            Endpoint.city = Place.iataCode (AmadeusSegment.arrival lastSegment),
                            time = substring0 arrivalTime 5,
                            Endpoint.date =
                              hd (split (at' (AmadeusSegment.arrival lastSegment)) CHR ''T'')\<rparr>,
                         FlightOffer.duration =
                           toLowerCase (replace (AmadeusItinerary.duration itinerary) ''PT'' []),
                         stops = int (length (segments itinerary)) - 1,
                         FlightOffer.price = parseFloat (total (AmadeusFlightOffer.price offer)),
                         FlightOffer.currency = Price.currency (AmadeusFlightOffer.price offer),
                         FlightOffer.aircraft =
                           (case AmadeusSegment.aircraft firstSegment of
                              None \<Rightarrow> None
                            | Some a \<Rightarrow> Some (Aircraft.code a))\<rparr>
                | _ \<Rightarrow> Inl TypeError)
           | _ \<Rightarrow> Inl TypeError))"

text \<open>\<open>Array.prototype.map\<close> with the callback above, from index \<open>idx\<close> on; the first
  exception ends it.\<close>

fun normalizeOffers :: "AmadeusFlightOffer list \<Rightarrow> nat \<Rightarrow> error + FlightOffer list" where
  "normalizeOffers [] idx = Inr []"
| "normalizeOffers (offer # rest) idx =
     (case normalizeOffer offer idx of
        Inl err \<Rightarrow> Inl err
      | Inr flight \<Rightarrow>
          (case normalizeOffers rest (Suc idx) of
             Inl err \<Rightarrow> Inl err
           | Inr flights \<Rightarrow> Inr (flight # flights)))"

definition searchFlights ::
  "env \<Rightarrow> io \<Rightarrow> FlightSearchParams \<Rightarrow> service \<Rightarrow> (error + FlightOffer list) \<times> service" where
  "searchFlights e w params s =
     (case getAccessToken e w (loadStoredToken e w s) of
        (Inl err, s2) \<Rightarrow> (Inl err, s2)
      | (Inr token, s2) \<Rightarrow>
          (let s3 = s2\<lparr>requests := requests s2 @
                      [GET_flight_offers (origin params) (destination params)]\<rparr>
           in case offersFetch w of
                Rejected \<Rightarrow> (Inl FetchRejected, s3)
              | Response ok body \<Rightarrow>
                  if \<not> ok then (Inl FlightSearchFailed, s3)
                  else
                    (case body of
                       None \<Rightarrow> (Inl JsonRejected, s3)
                     | Some d \<Rightarrow>
                         (case AmadeusFlightOffersResponse.data d of
                            None \<Rightarrow> (Inr [], s3)
                          | Some offers \<Rightarrow> (normalizeOffers offers 0, s3)))))"

subsection \<open>Airports\<close>

text \<open>The entries of the object literal \<open>mockAirports\<close>, in the order of
  \<open>Object.entries\<close>: code, city, name.\<close>

definition mockAirports :: "(string \<times> string \<times> string) list" where
  "mockAirports =
     [(''JFK'', ''New York'', ''John F. Kennedy International''),
      (''LAX'', ''Los Angeles'', ''Los Angeles International''),
      (''ORD'', ''Chicago'', ''O'Hare International''),
      (''MIA'', ''Miami'', ''Miami International''),
      (''SFO'', ''San Francisco'', ''San Francisco International''),
      (''SEA'', ''Seattle'', ''Seattle-Tacoma International''),
      (''BOS'', ''Boston'', ''Logan International''),
      (''DEN'', ''Denver'', ''Denver International''),
      (''LHR'', ''London'', ''Heathrow Airport''),
      (''CDG'', ''Paris'', ''Charles de Gaulle Airport'')]"

definition getMockAirports :: "string \<Rightarrow> Suggestion list" where
  "getMockAirports query =
     take 5
       (map (\<lambda>(c, data). \<lparr>code = c, city = fst data, name = snd data\<rparr>)
          (filter
             (\<lambda>(c, data).
                includes_str (toLowerCase c) (toLowerCase query) \<or>
                includes_str (toLowerCase (fst data)) (toLowerCase query) \<or>
                includes_str (toLowerCase (snd data)) (toLowerCase query))
             mockAirports))"

text \<open>The mapping of one provider location, \<open>city\<close> falling back to the code when the
  address is absent or its city name is empty.\<close>

definition toSuggestion :: "AmadeusLocation \<Rightarrow> Suggestion" where
  "toSuggestion location =
     \<lparr>code = AmadeusLocation.iataCode location,
      city =
        (case address location of
           None \<Rightarrow> AmadeusLocation.iataCode location
         | Some a \<Rightarrow> if cityName a \<noteq> [] then cityName a else AmadeusLocation.iataCode location),
      name = AmadeusLocation.name location\<rparr>"

definition getAirports :: "env \<Rightarrow> io \<Rightarrow> string \<Rightarrow> service \<Rightarrow> Suggestion list \<times> service" where
  "getAirports e w query s =
     (case getAccessToken e w (loadStoredToken e w s) of
        (Inl err, s2) \<Rightarrow> (getMockAirports query, s2)
      | (Inr token, s2) \<Rightarrow>
          (let s3 = s2\<lparr>requests := requests s2 @ [GET_locations query]\<rparr>
           in case locationsFetch w of
                Rejected \<Rightarrow> (getMockAirports query, s3)
              | Response ok body \<Rightarrow>
                  if \<not> ok then (getMockAirports query, s3)
                  else
                    (case body of
                       None \<Rightarrow> (getMockAirports query, s3)
                     | Some d \<Rightarrow>
                         (take 5
                            (case AmadeusLocationsResponse.data d of
                               None \<Rightarrow> []
                             | Some locations \<Rightarrow> map toSuggestion locations),
                          s3))))"

subsection \<open>Dates\<close>

text \<open>
  The abstract operations of ECMA-262 on time values: \<open>Day\<close>, \<open>WeekDay\<close>,
  \<open>LocalTime\<close>, \<open>UTC\<close> and \<open>MonthFromTime\<close>, the last one by the usual closed form
  for the proleptic Gregorian calendar (years counted from 1 March, in cycles of 400).
  The dates of the history loop are not clipped to the range of \<open>Date\<close>: the clock
  is taken to leave room for the 30 days the loop goes back.
\<close>

definition msPerDay :: int where
  "msPerDay = 86400000"

definition Day :: "int \<Rightarrow> int" where
  "Day t = t div msPerDay"

definition WeekDay :: "int \<Rightarrow> int" where
  "WeekDay t = (Day t + 4) mod 7"

definition MonthFromTime :: "int \<Rightarrow> int" where
  "MonthFromTime t =
     (let z = Day t + 719468;
          doe = z mod 146097;
          yoe = (doe - doe div 1460 + doe div 36524 - doe div 146096) div 365;
          doy = doe - (365 * yoe + yoe div 4 - yoe div 100);
          mp = (5 * doy + 2) div 153
      in if mp < 10 then mp + 2 else mp - 10)"

definition LocalTime :: "env \<Rightarrow> int \<Rightarrow> int" where
  "LocalTime e t = t + LocalTZA e t True"

definition UTC :: "env \<Rightarrow> int \<Rightarrow> int" where
  "UTC e t = t - LocalTZA e t False"

definition getDay :: "env \<Rightarrow> int \<Rightarrow> int" where
  "getDay e tv = WeekDay (LocalTime e tv)"

definition getMonth :: "env \<Rightarrow> int \<Rightarrow> int" where
  "getMonth e tv = MonthFromTime (LocalTime e tv)"

text \<open>
  \<open>date.setDate(date.getDate() - i)\<close>. With \<open>t = LocalTime(tv)\<close>, \<open>setDate(dt)\<close>
  stores \<open>UTC(MakeDate(MakeDay(YearFromTime(t), MonthFromTime(t), dt), TimeWithinDay(t)))\<close>,
  and \<open>MakeDay(y, m, dt)\<close> is the day number of the first of that month plus
  \<open>dt - 1\<close>. For \<open>dt = DateFromTime(t) - i\<close> that is \<open>Day(t) - i\<close>: the local time goes
  back by \<open>i\<close> whole days and keeps its time within the day.
\<close>

definition setDate_back :: "env \<Rightarrow> int \<Rightarrow> nat \<Rightarrow> int" where
  "setDate_back e tv i = UTC e (LocalTime e tv - int i * msPerDay)"

text \<open>
  \<open>date.toISOString().split('T')[0]\<close>, as the number of the UTC day. For the years
  0000 to 9999 the printed form \<open>YYYY-MM-DD\<close> is ordered by \<open>localeCompare\<close> as the
  day numbers are ordered, which is how the sort after the loop is read.
\<close>

definition isoDate :: "int \<Rightarrow> int" where
  "isoDate tv = Day tv"

subsection \<open>Price history\<close>

text \<open>The constants of one pass of the loop, under the names the code gives them; \<open>d\<close>
  is the time value of \<open>date\<close> after \<open>setDate\<close>, \<open>i\<close> the loop counter.\<close>

definition weekendMultiplier :: "env \<Rightarrow> int \<Rightarrow> real" where
  "weekendMultiplier e d = (if getDay e d = 0 \<or> getDay e d = 6 then 11 / 10 else 1)"

definition seasonalMultiplier :: "env \<Rightarrow> int \<Rightarrow> real" where
  "seasonalMultiplier e d = (if 5 \<le> getMonth e d \<and> getMonth e d \<le> 8 then 115 / 100 else 1)"

definition randomVariation :: "io \<Rightarrow> nat \<Rightarrow> real" where
  "randomVariation w i = (randomValue (random w i) - 1 / 2) * (4 / 10)"

definition daysFromToday :: "nat \<Rightarrow> int" where
  "daysFromToday i = \<bar>int i - 30\<bar>"

definition urgencyMultiplier :: "nat \<Rightarrow> real" where
  "urgencyMultiplier i =
     (if daysFromToday i < 7 then 12 / 10 else if daysFromToday i < 14 then 11 / 10 else 1)"

text \<open>The body of the loop: the point pushed in the pass with counter \<open>i\<close>.\<close>

definition historyPoint :: "env \<Rightarrow> io \<Rightarrow> jsnumber \<Rightarrow> nat \<Rightarrow> PriceHistory" where
  "historyPoint e w basePrice i =
     (let d = setDate_back e (now_loop w i) i;
          price' =
            Math_round
              (js_mul
                 (js_mul
                    (js_mul (js_mul basePrice (Num (1 + randomVariation w i)))
                       (Num (weekendMultiplier e d)))
                    (Num (seasonalMultiplier e d)))
                 (Num (urgencyMultiplier i)));
          finalPrice = Math_max price' (Math_round (js_mul basePrice (Num (6 / 10))))
      in \<lparr>date = isoDate d, price = finalPrice\<rparr>)"

text \<open>\<open>for (let i = 30; i >= 0; i--)\<close>, started at \<open>i\<close> with the points pushed so far.\<close>

fun historyLoop :: "env \<Rightarrow> io \<Rightarrow> jsnumber \<Rightarrow> nat \<Rightarrow> PriceHistory list \<Rightarrow> PriceHistory list" where
  "historyLoop e w basePrice 0 history = history @ [historyPoint e w basePrice 0]"
| "historyLoop e w basePrice (Suc i) history =
     historyLoop e w basePrice i (history @ [historyPoint e w basePrice (Suc i)])"

text \<open>The loop and the sort that follows it; \<open>Array.prototype.sort\<close> is stable, as is
  \<open>sort_key\<close>.\<close>

definition synthesize :: "env \<Rightarrow> io \<Rightarrow> jsnumber \<Rightarrow> PriceHistory list" where
  "synthesize e w basePrice = sort_key PriceHistory.date (historyLoop e w basePrice 30 [])"

text \<open>The average of the offers' parsed prices (the array is not empty where the code
  computes it).\<close>

definition averagePrice :: "AmadeusFlightOffer list \<Rightarrow> jsnumber" where
  "averagePrice offers =
     (let prices = map (\<lambda>offer. parseFloat (total (AmadeusFlightOffer.price offer))) offers
      in js_div (foldl js_add (Num 0) prices) (Num (real (length prices))))"

text \<open>
  The base price, from the outcome of the offer request: the part of \<open>getPriceHistory\<close>
  from \<open>await fetch\<close> to the end of \<open>if (response.ok)\<close>. A rejected \<open>fetch\<close> or
  \<open>json()\<close> is an exception, which leaves the \<open>try\<close> block.
\<close>

definition samplePrice :: "AmadeusFlightOffersResponse fetched \<Rightarrow> error + jsnumber" where
  "samplePrice r =
     (case r of
        Rejected \<Rightarrow> Inl FetchRejected
      | Response ok body \<Rightarrow>
          if ok then
            (case body of
               None \<Rightarrow> Inl JsonRejected
             | Some d \<Rightarrow>
                 (case AmadeusFlightOffersResponse.data d of
                    None \<Rightarrow> Inr (Num 250)
                  | Some offers \<Rightarrow>
                      if offers \<noteq> [] then Inr (averagePrice offers) else Inr (Num 250)))
          else Inr (Num 250))"

text \<open>Every exception inside the \<open>try\<close> block is caught, and the result is then the
  empty array.\<close>

definition getPriceHistory ::
  "env \<Rightarrow> io \<Rightarrow> string \<Rightarrow> string \<Rightarrow> service \<Rightarrow> PriceHistory list \<times> service" where
  "getPriceHistory e w origin' destination' s =
     (case getAccessToken e w (loadStoredToken e w s) of
        (Inl err, s2) \<Rightarrow> ([], s2)
      | (Inr token, s2) \<Rightarrow>
          (let s3 = s2\<lparr>requests := requests s2 @ [GET_flight_offers origin' destination']\<rparr>
           in case samplePrice (offersFetch w) of
                Inl err \<Rightarrow> ([], s3)
              | Inr basePrice \<Rightarrow> (synthesize e w basePrice, s3)))"

subsection \<open>Notions of the specification\<close>

text \<open>A suggestion matches a keyword when the keyword, in lower case, occurs in the
  lower-case code, city or name.\<close>

definition matchesKeyword :: "string \<Rightarrow> Suggestion \<Rightarrow> bool" where
  "matchesKeyword query a =
     (includes_str (toLowerCase (code a)) (toLowerCase query) \<or>
      includes_str (toLowerCase (city a)) (toLowerCase query) \<or>
      includes_str (toLowerCase (name a)) (toLowerCase query))"

text \<open>The offers that the provider returned: those of a success response that carries
  a \<open>data\<close> array, none otherwise.\<close>

definition returnedOffers :: "AmadeusFlightOffersResponse fetched \<Rightarrow> AmadeusFlightOffer list" where
  "returnedOffers r =
     (case r of
        Rejected \<Rightarrow> []
      | Response ok body \<Rightarrow>
          if ok then
            (case body of
               None \<Rightarrow> []
             | Some d \<Rightarrow>
                 (case AmadeusFlightOffersResponse.data d of None \<Rightarrow> [] | Some offers \<Rightarrow> offers))
          else [])"

subsection \<open>Concrete inputs\<close>

text \<open>
  A host in the UTC zone with both secrets configured. Of the two date functions the
  examples need two values: 12:30:00.000 and 12:29:59.200 on 2 November 2026.
\<close>

definition exampleEnv :: env where
  "exampleEnv =
     \<lparr>VITE_AMADEUS_CLIENT_ID = Some ''client'',
      VITE_AMADEUS_CLIENT_SECRET = Some ''secret'',
      LocalTZA = (\<lambda>t isUTC. 0),
      Date_parse =
        (\<lambda>str. if str = ''2026-11-02T12:30:00.000Z'' then Some 1793622600000
              else if str = ''2026-11-02T12:29:59.200Z'' then Some 1793622599200
              else None),
      toISOString =
        (\<lambda>t. if t = 1793622600000 then ''2026-11-02T12:30:00.000Z''
             else if t = 1793622599200 then ''2026-11-02T12:29:59.200Z''
             else [])\<rparr>"

text \<open>The raw offer of the scenario: one itinerary of one segment, JFK to LAX.\<close>

definition offerX :: AmadeusFlightOffer where
  "offerX =
     \<lparr>AmadeusFlightOffer.id' = Some ''X'',
      itineraries =
        [\<lparr>AmadeusItinerary.duration = ''PT2H30M'',
          segments =
            [\<lparr>AmadeusSegment.departure = \<lparr>Place.iataCode = ''JFK'', at' = ''2024-06-01T08:00''\<rparr>,
              AmadeusSegment.arrival = \<lparr>Place.iataCode = ''LAX'', at' = ''2024-06-01T11:30''\<rparr>,
              carrierCode = ''AA'',
              number = ''100'',
              AmadeusSegment.aircraft = None\<rparr>]\<rparr>],
      AmadeusFlightOffer.price = \<lparr>total = ''199.99'', Price.currency = ''USD''\<rparr>\<rparr>"

text \<open>An offer of two segments, JFK to LAX by way of ORD, whose \<open>id\<close> is the empty
  string.\<close>

definition offerTwoSegments :: AmadeusFlightOffer where
  "offerTwoSegments =
     \<lparr>AmadeusFlightOffer.id' = Some [],
      itineraries =
        [\<lparr>AmadeusItinerary.duration = ''PT7H05M'',
          segments =
            [\<lparr>AmadeusSegment.departure = \<lparr>Place.iataCode = ''JFK'', at' = ''2024-06-01T08:00''\<rparr>,
              AmadeusSegment.arrival = \<lparr>Place.iataCode = ''ORD'', at' = ''2024-06-01T09:45''\<rparr>,
              carrierCode = ''UA'',
              number = ''12'',
              AmadeusSegment.aircraft = Some \<lparr>Aircraft.code = ''738''\<rparr>\<rparr>,
             \<lparr>AmadeusSegment.departure = \<lparr>Place.iataCode = ''ORD'', at' = ''2024-06-01T11:00''\<rparr>,
              AmadeusSegment.arrival = \<lparr>Place.iataCode = ''LAX'', at' = ''2024-06-01T13:05''\<rparr>,
              carrierCode = ''UA'',
              number = ''34'',
              AmadeusSegment.aircraft = None\<rparr>]\<rparr>],
      AmadeusFlightOffer.price = \<lparr>total = ''310.50'', Price.currency = ''USD''\<rparr>\<rparr>"

text \<open>An offer whose total is not a number.\<close>

definition offerNoPrice :: AmadeusFlightOffer where
  "offerNoPrice = offerX\<lparr>AmadeusFlightOffer.price := \<lparr>total = ''N/A'', Price.currency = ''USD''\<rparr>\<rparr>"

text \<open>An offer whose total is a finite number close to the largest one.\<close>

definition offerHuge :: AmadeusFlightOffer where
  "offerHuge = offerX\<lparr>AmadeusFlightOffer.price := \<lparr>total = ''1.7e308'', Price.currency = ''USD''\<rparr>\<rparr>"

definition locationLAX :: AmadeusLocation where
  "locationLAX =
     \<lparr>AmadeusLocation.iataCode = ''LAX'',
      AmadeusLocation.name = ''LOS ANGELES INTL'',
      address = Some \<lparr>cityName = ''LOS ANGELES''\<rparr>\<rparr>"

text \<open>
  A call at noon of 2 November 2026 in which every request is answered: a token that
  lives 1799 seconds, the offer of the scenario, one location.
\<close>

definition exampleIo :: io where
  "exampleIo =
     \<lparr>now_load = 1793620800000,
      now_check = 1793620800001,
      tokenFetch = Response True (Some \<lparr>access_token = ''fresh'', expires_in = Num 1799\<rparr>),
      now_exchange = 1793620800200,
      offersFetch = Response True (Some \<lparr>AmadeusFlightOffersResponse.data = Some [offerX]\<rparr>),
      locationsFetch = Response True (Some \<lparr>AmadeusLocationsResponse.data = Some [locationLAX]\<rparr>),
      now_loop = (\<lambda>i. 1793620800400),
      random = (\<lambda>i. RandomNumber (1 / 2))\<rparr>"

text \<open>A service that holds the token \<open>tok\<close>, good until 12:30, and one that holds
  nothing; the store is empty in both.\<close>

definition validService :: service where
  "validService =
     \<lparr>accessToken = Some ''tok'',
      tokenExpiry = Some 1793622600000,
      localStorage = Map.empty,
      requests = []\<rparr>"

definition emptyService :: service where
  "emptyService =
     \<lparr>accessToken = None, tokenExpiry = None, localStorage = Map.empty, requests = []\<rparr>"

text \<open>A service after a reload of the page: nothing in memory, the token \<open>tok\<close> and its
  expiry in the store.\<close>

definition storedService :: service where
  "storedService =
     \<lparr>accessToken = None,
      tokenExpiry = None,
      localStorage =
        [''amadeus_token'' \<mapsto> ''tok'', ''amadeus_token_expiry'' \<mapsto> ''2026-11-02T12:30:00.000Z''],
      requests = []\<rparr>"

text \<open>
  A host on London time in the spring and summer of 2025: the offset from UTC is 0 until
  2025-03-30T01:00:00Z and one hour from then on (for a local time value, from 02:00
  local time on). In \<open>londonIo\<close> the clock shows 2025-04-04T23:30:00Z, half past
  midnight of 5 April in local time, throughout the loop; in \<open>londonJulyIo\<close> it
  shows 2025-07-15T23:30:00Z, and the 30 days before it are all on summer time.
\<close>

definition londonEnv :: env where
  "londonEnv =
     exampleEnv\<lparr>LocalTZA :=
       (\<lambda>t isUTC. if isUTC then (if 1743296400000 \<le> t then 3600000 else 0)
                   else (if 1743300000000 \<le> t then 3600000 else 0))\<rparr>"

definition londonIo :: io where
  "londonIo = exampleIo\<lparr>now_loop := (\<lambda>i. 1743809400000)\<rparr>"

definition londonJulyIo :: io where
  "londonJulyIo = exampleIo\<lparr>now_loop := (\<lambda>i. 1752622200000)\<rparr>"

section \<open>Properties\<close>

subsection \<open>Token management\<close>

lemma requests_loadStoredToken: "requests (loadStoredToken e w s) = requests s"
  by (simp add: loadStoredToken_def Let_def split: option.splits)

lemma getAccessToken_reuse:
  assumes "accessToken s = Some t" and "t \<noteq> []" and "tokenExpiry s = Some x"
    and "now_check w < x"
  shows "getAccessToken e w s = (Inr t, s)"
  using assms by (simp add: getAccessToken_def truthy_def)

lemma getAccessToken_Inr:
  assumes "getAccessToken e w s = (Inr t, s')"
  shows "(s' = s \<and> accessToken s = Some t \<and> (\<exists>x. tokenExpiry s = Some x \<and> now_check w < x)) \<or>
         (\<exists>d x. tokenFetch w = Response True (Some d) \<and> t = access_token d \<and>
              accessToken s' = Some t \<and>
              TimeClip (js_add (Num (real_of_int (now_exchange w)))
                 (js_mul (expires_in d) (Num 1000))) = Some x \<and>
              tokenExpiry s' = Some x \<and>
              requests s' = requests s @ [POST_token])"
  using assms
  by (auto simp: getAccessToken_def truthy_def Let_def
      split: if_splits option.splits fetched.splits)

lemma toNumber_cases:
  "toNumber x = PosInfinity \<or> toNumber x = NegInfinity \<or> toNumber x = Num x"
  by (simp add: toNumber_def)

lemma TimeClip_Some_Num: "TimeClip v = Some x \<Longrightarrow> \<exists>r. v = Num r \<and> \<bar>r\<bar> \<le> 8640000000000000 \<and> x = (if 0 \<le> r then \<lfloor>r\<rfloor> else \<lceil>r\<rceil>)"
  by (auto simp: TimeClip_def split: jsnumber.splits if_splits)

lemma TimeClip_sum:
  assumes "TimeClip (js_add (Num (real_of_int n)) (js_mul (Num r) (Num 1000))) = Some x"
  shows "x = (if 0 \<le> of_int n + r * 1000 then \<lfloor>of_int n + r * 1000\<rfloor> else \<lceil>of_int n + r * 1000\<rceil>)"
proof -
  obtain y where y: "js_add (Num (real_of_int n)) (js_mul (Num r) (Num 1000)) = Num y"
    and x: "x = (if 0 \<le> y then \<lfloor>y\<rfloor> else \<lceil>y\<rceil>)"
    using TimeClip_Some_Num [OF assms] by blast
  have m: "js_mul (Num r) (Num 1000) = Num (r * 1000)"
    using y toNumber_cases [of "r * 1000"]
    by (auto simp: js_mul_def js_add_def)
  have "y = of_int n + r * 1000"
    using y toNumber_cases [of "of_int n + r * 1000"]
    by (auto simp: m js_add_def)
  then show ?thesis
    using x by simp
qed

lemma TimeClip_whole_seconds:
  assumes "TimeClip (js_add (Num (real_of_int n)) (js_mul (Num (of_int k)) (Num 1000))) = Some x"
  shows "x = n + k * 1000"
proof -
  have "real_of_int n + of_int k * 1000 = of_int (n + k * 1000)"
    by simp
  then show ?thesis
    using TimeClip_sum [OF assms] by (simp only: floor_of_int ceiling_of_int if_cancel)
qed

lemma TimeClip_millisecond:
  assumes "TimeClip (js_add (Num (real_of_int n)) (js_mul (Num r) (Num 1000))) = Some x"
    and "1 / 1000 \<le> r"
  shows "n < x"
proof -
  have h: "of_int (n + 1) \<le> of_int n + r * 1000"
    using assms(2) by simp
  then have "n + 1 \<le> \<lfloor>of_int n + r * 1000\<rfloor>"
    by (simp only: le_floor_iff)
  moreover have "of_int n + r * 1000 \<le> of_int \<lceil>of_int n + r * 1000\<rceil>"
    by (rule le_of_int_ceiling)
  with h have "(of_int (n + 1) :: real) \<le> of_int \<lceil>of_int n + r * 1000\<rceil>"
    by (rule order_trans)
  then have "n + 1 \<le> \<lceil>of_int n + r * 1000\<rceil>"
    by (simp only: of_int_le_iff)
  ultimately show ?thesis
    using TimeClip_sum [OF assms(1)] by (simp split: if_splits)
qed

lemma TimeClip_not_positive:
  assumes "TimeClip (js_add (Num (real_of_int n)) (js_mul (Num r) (Num 1000))) = Some x"
    and "r \<le> 0"
  shows "x \<le> n"
proof -
  have h: "of_int n + r * 1000 \<le> of_int n"
    using assms(2) by simp
  then have "\<lceil>of_int n + r * 1000\<rceil> \<le> n"
    by (simp only: ceiling_le_iff)
  moreover have "of_int \<lfloor>of_int n + r * 1000\<rfloor> \<le> of_int n + r * 1000"
    by (rule of_int_floor_le)
  then have "(of_int \<lfloor>of_int n + r * 1000\<rfloor> :: real) \<le> of_int n"
    using h by (rule order_trans)
  then have "\<lfloor>of_int n + r * 1000\<rfloor> \<le> n"
    by (simp only: of_int_le_iff)
  ultimately show ?thesis
    using TimeClip_sum [OF assms(1)] by (simp split: if_splits)
qed

text \<open>
  C6. While the service holds a credential in memory whose token is not empty and whose
  expiry is later than the clock at each call, any number of calls of \<open>getAccessToken\<close>
  one after the other return that token every time and leave the whole state as it was:
  no request is sent to the token endpoint and \<open>localStorage\<close> is not written.
\<close>

theorem getAccessToken_reuse_no_exchange:
  assumes "accessToken s = Some t" and "t \<noteq> []" and "tokenExpiry s = Some x"
    and "\<forall>w \<in> set ws. now_check w < x"
  shows "getAccessToken_calls e ws s = (replicate (length ws) (Inr t), s)"
  using assms by (induction ws) (simp_all add: getAccessToken_reuse)

theorem getAccessToken_reuse_no_exchange_witness:
  "getAccessToken_calls exampleEnv
     [exampleIo, exampleIo\<lparr>now_check := 1793620900000\<rparr>, exampleIo\<lparr>now_check := 1793622599999\<rparr>]
     validService
   = ([Inr ''tok'', Inr ''tok'', Inr ''tok''], validService)"
  using getAccessToken_reuse_no_exchange
    [of validService "''tok''" 1793622600000
        "[exampleIo, exampleIo\<lparr>now_check := 1793620900000\<rparr>,
          exampleIo\<lparr>now_check := 1793622599999\<rparr>]" exampleEnv]
  by (simp add: validService_def exampleIo_def)

text \<open>
  The public operations run \<open>loadStoredToken\<close> before \<open>getAccessToken\<close>. That step
  changes nothing when the store is empty, and nothing when it mirrors the credential
  held in memory, which is how a token exchange leaves it.
\<close>

lemma loadStoredToken_empty_store:
  assumes "localStorage s ''amadeus_token'' = None"
  shows "loadStoredToken e w s = s"
  using assms by (simp add: loadStoredToken_def truthy_def)

lemma loadStoredToken_mirror:
  assumes "localStorage s ''amadeus_token'' = Some t" and "accessToken s = Some t"
    and "localStorage s ''amadeus_token_expiry'' = Some str" and "Date_parse e str = Some x"
    and "tokenExpiry s = Some x" and "now_load w < x"
  shows "loadStoredToken e w s = s"
  using assms by (simp add: loadStoredToken_def Let_def)

lemma loadStoredToken_storedService:
  "loadStoredToken exampleEnv exampleIo storedService =
     storedService\<lparr>accessToken := Some ''tok'', tokenExpiry := Some 1793622600000\<rparr>"
  by (simp add: loadStoredToken_def Let_def storedService_def exampleEnv_def exampleIo_def truthy_def)

lemma loadStoredToken_emptyService [simp]: "loadStoredToken e w emptyService = emptyService"
  by (simp add: loadStoredToken_empty_store emptyService_def)

text \<open>
  C5, as the code has it. Let a call load the stored token and then acquire a token, as
  every public operation does. The token it returns is the one the service then holds in
  memory. If no exchange was made (the token was held already, or was taken over from
  the store), its expiry is later than the clock at the check in \<open>getAccessToken\<close>.
  If it comes from an exchange, it is the token the provider sent and its expiry is the
  valid date made by \<open>new Date(Date.now() + expires_in * 1000)\<close>, which the code does
  not compare with the clock: it is later than the clock read after the exchange when
  \<open>expires_in\<close> is at least a thousandth, it is not later when \<open>expires_in\<close> is zero
  or negative, and for a whole number \<open>k\<close> of seconds it is that clock plus
  \<open>1000 k\<close> milliseconds.
\<close>

theorem acquired_token_expiry:
  assumes ret: "getAccessToken e w (loadStoredToken e w s) = (Inr t, s')"
  shows "accessToken s' = Some t \<and>
         (requests s' = requests s \<longrightarrow> (\<exists>x. tokenExpiry s' = Some x \<and> now_check w < x)) \<and>
         (requests s' \<noteq> requests s \<longrightarrow>
            (\<exists>d x. tokenFetch w = Response True (Some d) \<and> t = access_token d \<and>
                 tokenExpiry s' = Some x \<and>
                 (\<forall>r. expires_in d = Num r \<longrightarrow>
                    (1 / 1000 \<le> r \<longrightarrow> now_exchange w < x) \<and>
                    (r \<le> 0 \<longrightarrow> x \<le> now_exchange w)) \<and>
                 (\<forall>k. expires_in d = Num (of_int k) \<longrightarrow> x = now_exchange w + k * 1000)))"
proof -
  let ?s1 = "loadStoredToken e w s"
  from getAccessToken_Inr [OF ret]
  consider (reuse) "s' = ?s1" "accessToken ?s1 = Some t"
      "\<exists>x. tokenExpiry ?s1 = Some x \<and> now_check w < x"
    | (fresh) d x where "tokenFetch w = Response True (Some d)" "t = access_token d"
      "accessToken s' = Some t"
      "TimeClip (js_add (Num (real_of_int (now_exchange w)))
         (js_mul (expires_in d) (Num 1000))) = Some x"
      "tokenExpiry s' = Some x"
      "requests s' = requests ?s1 @ [POST_token]"
    by blast
  then show ?thesis
  proof cases
    case reuse
    then show ?thesis
      by (simp add: requests_loadStoredToken)
  next
    case fresh
    have whole: "x = now_exchange w + k * 1000" if "expires_in d = Num (of_int k)" for k
      using TimeClip_whole_seconds [of "now_exchange w" k x] fresh(4) that by simp
    have later: "now_exchange w < x" if "expires_in d = Num r" "1 / 1000 \<le> r" for r
      using TimeClip_millisecond [of "now_exchange w" r x] fresh(4) that by simp
    have not_later: "x \<le> now_exchange w" if "expires_in d = Num r" "r \<le> 0" for r
      using TimeClip_not_positive [of "now_exchange w" r x] fresh(4) that by simp
    have "\<exists>d x. tokenFetch w = Response True (Some d) \<and> t = access_token d \<and>
        tokenExpiry s' = Some x \<and>
        (\<forall>r. expires_in d = Num r \<longrightarrow>
           (1 / 1000 \<le> r \<longrightarrow> now_exchange w < x) \<and>
           (r \<le> 0 \<longrightarrow> x \<le> now_exchange w)) \<and>
        (\<forall>k. expires_in d = Num (of_int k) \<longrightarrow> x = now_exchange w + k * 1000)"
      using fresh(1,2,5) whole later not_later by blast
    then show ?thesis
      using fresh(3,6) by (simp add: requests_loadStoredToken)
  qed
qed

theorem acquired_token_expiry_witness:
  "accessToken (snd (getAccessToken exampleEnv exampleIo
       (loadStoredToken exampleEnv exampleIo validService))) = Some ''tok'' \<and>
   accessToken (snd (getAccessToken exampleEnv exampleIo
       (loadStoredToken exampleEnv exampleIo storedService))) = Some ''tok'' \<and>
   tokenExpiry (snd (getAccessToken exampleEnv exampleIo
       (loadStoredToken exampleEnv exampleIo storedService))) = Some 1793622600000 \<and>
   now_check exampleIo < 1793622600000 \<and>
   fst (getAccessToken exampleEnv exampleIo
       (loadStoredToken exampleEnv exampleIo emptyService)) = Inr ''fresh'' \<and>
   accessToken (snd (getAccessToken exampleEnv exampleIo
       (loadStoredToken exampleEnv exampleIo emptyService))) = Some ''fresh'' \<and>
   tokenExpiry (snd (getAccessToken exampleEnv exampleIo
       (loadStoredToken exampleEnv exampleIo emptyService))) = Some 1793622599200 \<and>
   now_exchange exampleIo < 1793622599200"
proof -
  let ?held = "getAccessToken exampleEnv exampleIo (loadStoredToken exampleEnv exampleIo validService)"
  let ?stored = "getAccessToken exampleEnv exampleIo (loadStoredToken exampleEnv exampleIo storedService)"
  let ?fresh = "getAccessToken exampleEnv exampleIo (loadStoredToken exampleEnv exampleIo emptyService)"
  have held: "?held = (Inr ''tok'', snd ?held)"
    by (simp add: loadStoredToken_empty_store getAccessToken_def validService_def exampleIo_def
        truthy_def)
  have stored: "?stored = (Inr ''tok'', snd ?stored)"
    and exp: "tokenExpiry (snd ?stored) = Some 1793622600000"
    and now: "now_check exampleIo < 1793622600000"
    unfolding loadStoredToken_storedService
    by (simp_all add: getAccessToken_def storedService_def exampleIo_def truthy_def)
  have res: "fst ?fresh = Inr ''fresh''"
    and sent: "requests (snd ?fresh) \<noteq> requests emptyService"
    and ttl: "tokenFetch exampleIo = Response True (Some \<lparr>access_token = ''fresh'', expires_in = Num (of_int 1799)\<rparr>)"
    and clock: "now_exchange exampleIo = 1793620800200"
    by (simp_all add: loadStoredToken_def getAccessToken_def emptyService_def exampleEnv_def
        exampleIo_def truthy_def TimeClip_def js_add_def js_mul_def toNumber_def
        overflowThreshold_def)
  have fresh: "?fresh = (Inr ''fresh'', snd ?fresh)"
    using res by (simp add: prod_eq_iff)
  from acquired_token_expiry [OF held]
  have a1: "accessToken (snd ?held) = Some ''tok''"
    by blast
  from acquired_token_expiry [OF stored]
  have a2: "accessToken (snd ?stored) = Some ''tok''"
    by blast
  from acquired_token_expiry [OF fresh] sent
  obtain d x where d: "tokenFetch exampleIo = Response True (Some d)"
    and x: "tokenExpiry (snd ?fresh) = Some x"
    and r: "\<forall>r. expires_in d = Num r \<longrightarrow>
       (1 / 1000 \<le> r \<longrightarrow> now_exchange exampleIo < x) \<and> (r \<le> 0 \<longrightarrow> x \<le> now_exchange exampleIo)"
    and k: "\<forall>k. expires_in d = Num (of_int k) \<longrightarrow> x = now_exchange exampleIo + k * 1000"
    and a3: "accessToken (snd ?fresh) = Some ''fresh''"
    by blast
  from d ttl have ttl': "expires_in d = Num (of_int 1799)"
    by auto
  with k have "x = now_exchange exampleIo + 1799 * 1000"
    by blast
  then have x': "x = 1793622599200"
    using clock by simp
  have "(1 :: real) / 1000 \<le> of_int 1799"
    by simp
  with r ttl' have "now_exchange exampleIo < x"
    by blast
  then have later: "now_exchange exampleIo < 1793622599200"
    unfolding x' .
  show ?thesis
    using a1 a2 a3 exp now res x x' later by simp
qed

text \<open>The claim C5 as it was stated fails for an exchange: a provider answer with
  \<open>expires_in = 0\<close> yields a token whose expiry is the very instant the clock shows
  after the exchange.\<close>

theorem fresh_token_zero_lifetime:
  "fst (getAccessToken exampleEnv
      (exampleIo\<lparr>tokenFetch := Response True (Some \<lparr>access_token = ''fresh'', expires_in = Num 0\<rparr>)\<rparr>)
      (loadStoredToken exampleEnv
         (exampleIo\<lparr>tokenFetch := Response True (Some \<lparr>access_token = ''fresh'', expires_in = Num 0\<rparr>)\<rparr>)
         emptyService)) = Inr ''fresh'' \<and>
   tokenExpiry (snd (getAccessToken exampleEnv
      (exampleIo\<lparr>tokenFetch := Response True (Some \<lparr>access_token = ''fresh'', expires_in = Num 0\<rparr>)\<rparr>)
      (loadStoredToken exampleEnv
         (exampleIo\<lparr>tokenFetch := Response True (Some \<lparr>access_token = ''fresh'', expires_in = Num 0\<rparr>)\<rparr>)
         emptyService))) = Some 1793620800200 \<and>
   now_exchange
      (exampleIo\<lparr>tokenFetch := Response True (Some \<lparr>access_token = ''fresh'', expires_in = Num 0\<rparr>)\<rparr>)
     = 1793620800200"
  by (simp add: loadStoredToken_def getAccessToken_def emptyService_def exampleEnv_def
      exampleIo_def truthy_def TimeClip_def js_add_def js_mul_def toNumber_def overflowThreshold_def)

text \<open>
  A positive lifetime does not help when it is short of a millisecond: the date keeps the
  integer part of the sum, and with \<open>expires_in = 0.0004\<close> the token of the exchange
  expires at the instant the clock shows. When the sum leaves the range of \<open>Date\<close>,
  \<open>toISOString\<close> throws and the call fails, with the token already in memory and in
  the store.
\<close>

lemma fresh_token_fraction_of_millisecond:
  "fst (getAccessToken exampleEnv
      (exampleIo\<lparr>tokenFetch := Response True (Some \<lparr>access_token = ''fresh'', expires_in = Num (4 / 10000)\<rparr>)\<rparr>)
      emptyService) = Inr ''fresh'' \<and>
   tokenExpiry (snd (getAccessToken exampleEnv
      (exampleIo\<lparr>tokenFetch := Response True (Some \<lparr>access_token = ''fresh'', expires_in = Num (4 / 10000)\<rparr>)\<rparr>)
      emptyService)) = Some 1793620800200"
proof -
  have "\<lfloor>1793620800200 + 4 / 10 :: real\<rfloor> = 1793620800200"
    by (simp add: floor_eq_iff)
  then show ?thesis
    by (simp add: getAccessToken_def emptyService_def exampleEnv_def
      exampleIo_def truthy_def TimeClip_def js_add_def js_mul_def toNumber_def overflowThreshold_def)
qed

lemma fresh_token_out_of_range:
  "fst (getAccessToken exampleEnv
      (exampleIo\<lparr>tokenFetch := Response True (Some \<lparr>access_token = ''fresh'', expires_in = Num 10000000000000\<rparr>)\<rparr>)
      emptyService) = Inl RangeError \<and>
   accessToken (snd (getAccessToken exampleEnv
      (exampleIo\<lparr>tokenFetch := Response True (Some \<lparr>access_token = ''fresh'', expires_in = Num 10000000000000\<rparr>)\<rparr>)
      emptyService)) = Some ''fresh'' \<and>
   tokenExpiry (snd (getAccessToken exampleEnv
      (exampleIo\<lparr>tokenFetch := Response True (Some \<lparr>access_token = ''fresh'', expires_in = Num 10000000000000\<rparr>)\<rparr>)
      emptyService)) = None \<and>
   localStorage (snd (getAccessToken exampleEnv
      (exampleIo\<lparr>tokenFetch := Response True (Some \<lparr>access_token = ''fresh'', expires_in = Num 10000000000000\<rparr>)\<rparr>)
      emptyService)) ''amadeus_token'' = Some ''fresh''"
  by (simp add: getAccessToken_def emptyService_def exampleEnv_def
      exampleIo_def truthy_def TimeClip_def js_add_def js_mul_def toNumber_def overflowThreshold_def)

subsection \<open>The offer normaliser\<close>

lemma parseFloat_199_99: "parseFloat ''199.99'' = Num (19999 / 100)"
  by (simp add: parseFloat_def isWhiteSpace1_def isWhiteSpace2_def isWhiteSpace3_def isDigit_def
      digitsValue_def exponentPart_def pow10_def toNumber_def overflowThreshold_def)

lemma parseFloat_310_50: "parseFloat ''310.50'' = Num (621 / 2)"
  by (simp add: parseFloat_def isWhiteSpace1_def isWhiteSpace2_def isWhiteSpace3_def isDigit_def
      digitsValue_def exponentPart_def pow10_def toNumber_def overflowThreshold_def)

lemma parseFloat_N_A: "parseFloat ''N/A'' = NaN"
  by (simp add: parseFloat_def isWhiteSpace1_def isWhiteSpace2_def isWhiteSpace3_def isDigit_def)

text \<open>Beyond the finite doubles \<open>parseFloat\<close> returns an infinity, as it does for the
  literal \<open>Infinity\<close>; a no-break space (U+00A0) in front of the number is skipped.\<close>

lemma parseFloat_1e400: "parseFloat ''1e400'' = PosInfinity"
  by (simp add: parseFloat_def isWhiteSpace1_def isWhiteSpace2_def isWhiteSpace3_def isDigit_def
      digitsValue_def exponentPart_def pow10_def toNumber_def overflowThreshold_def)

lemma parseFloat_Infinity: "parseFloat ''-Infinity'' = NegInfinity"
  by (simp add: parseFloat_def isWhiteSpace1_def isWhiteSpace2_def isWhiteSpace3_def isDigit_def)

lemma parseFloat_1_7e308: "parseFloat ''1.7e308'' = Num (17 * 10 ^ 307)"
  by (simp add: parseFloat_def isWhiteSpace1_def isWhiteSpace2_def isWhiteSpace3_def isDigit_def
      digitsValue_def exponentPart_def pow10_def toNumber_def overflowThreshold_def)

lemma parseFloat_nbsp: "parseFloat [char_of (194 :: nat), char_of (160 :: nat), CHR ''7''] = Num 7"
  by (simp add: parseFloat_def isWhiteSpace1_def isWhiteSpace2_def isWhiteSpace3_def isDigit_def
      digitsValue_def exponentPart_def pow10_def toNumber_def overflowThreshold_def)

lemma split_not_Nil: "split s c \<noteq> []"
  by (induction s) (auto split: list.splits)

lemma length_split_ge2: "c \<in> set s \<Longrightarrow> 2 \<le> length (split s c)"
  by (induction s) (auto split: list.splits simp: Suc_le_eq split_not_Nil)

lemma index_split_1: "c \<in> set s \<Longrightarrow> \<exists>p. index (split s c) 1 = Some p"
  using length_split_ge2 [of c s] by (simp add: index_def)

lemma normalizeOffer_Inr_stops:
  assumes "normalizeOffer offer idx = Inr flight"
    and "index (itineraries offer) 0 = Some itinerary"
  shows "stops flight = int (length (segments itinerary)) - 1"
  using assms
  by (auto simp: normalizeOffer_def split: option.splits prod.splits if_splits)

text \<open>
  C7. Let the first itinerary of an offer have \<open>N \<ge> 1\<close> segments. Whenever the
  normaliser returns a flight for the offer, its \<open>stops\<close> is \<open>N - 1\<close>, and \<open>0\<close> for
  \<open>N = 1\<close>. It does return one when the departure timestamp of the first segment and
  the arrival timestamp of the last segment contain the \<open>T\<close> that the code splits
  them at.
\<close>

theorem normalizeOffer_stops:
  assumes "index (itineraries offer) 0 = Some itinerary"
    and "segments itinerary \<noteq> []"
  shows "(\<forall>flight. normalizeOffer offer idx = Inr flight \<longrightarrow>
            stops flight = int (length (segments itinerary)) - 1 \<and>
            (length (segments itinerary) = 1 \<longrightarrow> stops flight = 0)) \<and>
         (CHR ''T'' \<in> set (at' (AmadeusSegment.departure (hd (segments itinerary)))) \<and>
          CHR ''T'' \<in> set (at' (AmadeusSegment.arrival (last (segments itinerary)))) \<longrightarrow>
            (\<exists>flight. normalizeOffer offer idx = Inr flight))"
proof (intro conjI allI impI)
  fix flight
  assume ret: "normalizeOffer offer idx = Inr flight"
  show n: "stops flight = int (length (segments itinerary)) - 1"
    by (rule normalizeOffer_Inr_stops [OF ret assms(1)])
  show "stops flight = 0" if "length (segments itinerary) = 1"
    using n that by simp
next
  let ?segs = "segments itinerary"
  assume ts: "CHR ''T'' \<in> set (at' (AmadeusSegment.departure (hd ?segs))) \<and>
      CHR ''T'' \<in> set (at' (AmadeusSegment.arrival (last ?segs)))"
  have first: "index ?segs 0 = Some (hd ?segs)"
    using assms(2) by (simp add: index_def hd_conv_nth)
  have lst: "index ?segs (length ?segs - 1) = Some (last ?segs)"
    using assms(2) by (simp add: index_def last_conv_nth)
  obtain dep where dep:
    "index (split (at' (AmadeusSegment.departure (hd ?segs))) CHR ''T'') 1 = Some dep"
    using index_split_1 ts by blast
  obtain arr where arr:
    "index (split (at' (AmadeusSegment.arrival (last ?segs))) CHR ''T'') 1 = Some arr"
    using index_split_1 ts by blast
  show "\<exists>flight. normalizeOffer offer idx = Inr flight"
    using assms first lst dep arr by (simp add: normalizeOffer_def)
qed

theorem normalizeOffer_stops_witness:
  "(\<exists>flight. normalizeOffer offerTwoSegments 4 = Inr flight) \<and>
   length (segments (hd (itineraries offerTwoSegments))) = 2 \<and>
   stops (projr (normalizeOffer offerTwoSegments 4)) = 1"
proof -
  have it: "index (itineraries offerTwoSegments) 0 = Some (hd (itineraries offerTwoSegments))"
    and segs: "segments (hd (itineraries offerTwoSegments)) \<noteq> []"
    and len: "length (segments (hd (itineraries offerTwoSegments))) = 2"
    by (simp_all add: offerTwoSegments_def index_def)
  have ts: "CHR ''T'' \<in> set (at' (AmadeusSegment.departure
        (hd (segments (hd (itineraries offerTwoSegments))))))"
    "CHR ''T'' \<in> set (at' (AmadeusSegment.arrival
        (last (segments (hd (itineraries offerTwoSegments))))))"
    by (simp_all add: offerTwoSegments_def)
  from normalizeOffer_stops [OF it segs, of 4] ts len show ?thesis
    by auto
qed

text \<open>
  C8. The raw offer of the scenario is normalised, at any index, to the flight of the
  scenario: id \<open>X\<close>, airline \<open>AA\<close>, flight number \<open>AA 100\<close>, from \<open>JFK\<close> at
  \<open>08:00\<close> on \<open>2024-06-01\<close> to \<open>LAX\<close> at \<open>11:30\<close> on the same day, duration
  \<open>2h30m\<close>, no stop, price 199.99 in \<open>USD\<close>; the two cities are the airport codes and
  there is no aircraft.
\<close>

theorem normalizeOffer_scenario:
  "normalizeOffer offerX idx =
     Inr \<lparr>FlightOffer.id' = ''X'', airline = ''AA'', flightNumber = ''AA 100'',
          FlightOffer.departure = \<lparr>airport = ''JFK'', Endpoint.city = ''JFK'', time = ''08:00'', Endpoint.date = ''2024-06-01''\<rparr>,
          FlightOffer.arrival = \<lparr>airport = ''LAX'', Endpoint.city = ''LAX'', time = ''11:30'', Endpoint.date = ''2024-06-01''\<rparr>,
          FlightOffer.duration = ''2h30m'', stops = 0, FlightOffer.price = Num (19999 / 100),
          FlightOffer.currency = ''USD'', FlightOffer.aircraft = None\<rparr>"
  by (simp add: normalizeOffer_def offerX_def index_def truthy_def substring0_def
      toLowerCase_def toLowerCaseChar_def parseFloat_199_99)

text \<open>
  C10. An offer whose \<open>id\<close> is falsy, that is absent or the empty string, is given the
  id \<open>flight-\<close> followed by its index whenever the normaliser returns a flight for it;
  that id is not empty.
\<close>

theorem normalizeOffer_falsy_id:
  assumes "\<not> truthy (AmadeusFlightOffer.id' offer)"
    and "normalizeOffer offer idx = Inr flight"
  shows "FlightOffer.id' flight = ''flight-'' @ toString idx \<and> FlightOffer.id' flight \<noteq> []"
  using assms
  by (auto simp: normalizeOffer_def split: option.splits prod.splits if_splits)

theorem normalizeOffer_falsy_id_witness:
  "\<not> truthy (AmadeusFlightOffer.id' offerTwoSegments) \<and>
   \<not> isl (normalizeOffer offerTwoSegments 12) \<and>
   FlightOffer.id' (projr (normalizeOffer offerTwoSegments 12)) = ''flight-12''"
  using normalizeOffer_falsy_id [of offerTwoSegments 12 "projr (normalizeOffer offerTwoSegments 12)"]
  by (simp add: offerTwoSegments_def normalizeOffer_def index_def truthy_def toString.simps digitChar_def)

subsection \<open>Airports\<close>

lemma startsWith_iff: "startsWith s sub \<longleftrightarrow> (\<exists>ss. s = sub @ ss)"
  by (induction s sub rule: startsWith.induct) auto

text \<open>\<open>includes_str\<close> decides the substring relation.\<close>

lemma includes_str_iff: "includes_str s sub \<longleftrightarrow> (\<exists>ps ss. s = ps @ sub @ ss)"
proof (induction s)
  case Nil
  then show ?case by auto
next
  case (Cons x xs)
  show ?case
  proof
    assume "includes_str (x # xs) sub"
    then consider "startsWith (x # xs) sub" | "includes_str xs sub" by auto
    then show "\<exists>ps ss. x # xs = ps @ sub @ ss"
    proof cases
      case 1
      then obtain ss where "x # xs = sub @ ss" by (auto simp: startsWith_iff)
      then have "x # xs = [] @ sub @ ss" by simp
      then show ?thesis by blast
    next
      case 2
      then obtain ps ss where "xs = ps @ sub @ ss" using Cons.IH by auto
      then have "x # xs = (x # ps) @ sub @ ss" by simp
      then show ?thesis by blast
    qed
  next
    assume "\<exists>ps ss. x # xs = ps @ sub @ ss"
    then obtain ps ss where eq: "x # xs = ps @ sub @ ss" by auto
    show "includes_str (x # xs) sub"
    proof (cases ps)
      case Nil
      then have "startsWith (x # xs) sub" using eq by (auto simp: startsWith_iff)
      then show ?thesis by simp
    next
      case (Cons p ps')
      then have "xs = ps' @ sub @ ss" using eq by simp
      then have "includes_str xs sub" using Cons.IH by blast
      then show ?thesis by simp
    qed
  qed
qed

lemma matchesKeyword_iff:
  "matchesKeyword query a \<longleftrightarrow>
     (\<exists>ps ss. toLowerCase (code a) = ps @ toLowerCase query @ ss) \<or>
     (\<exists>ps ss. toLowerCase (city a) = ps @ toLowerCase query @ ss) \<or>
     (\<exists>ps ss. toLowerCase (name a) = ps @ toLowerCase query @ ss)"
  by (simp add: matchesKeyword_def includes_str_iff)

lemma length_getMockAirports: "length (getMockAirports query) \<le> 5"
  by (simp add: getMockAirports_def)

lemma getMockAirports_matches:
  assumes "a \<in> set (getMockAirports query)"
  shows "matchesKeyword query a"
proof -
  from assms have "a \<in> set (map (\<lambda>(c, data). \<lparr>code = c, city = fst data, name = snd data\<rparr>)
          (filter
             (\<lambda>(c, data).
                includes_str (toLowerCase c) (toLowerCase query) \<or>
                includes_str (toLowerCase (fst data)) (toLowerCase query) \<or>
                includes_str (toLowerCase (snd data)) (toLowerCase query))
             mockAirports))"
    unfolding getMockAirports_def by (rule in_set_takeD)
  then show ?thesis
    by (auto simp: matchesKeyword_def)
qed

lemma getAirports_cases:
  "fst (getAirports e w query s) = getMockAirports query \<or>
   (\<exists>t s2 d. getAccessToken e w (loadStoredToken e w s) = (Inr t, s2) \<and>
      locationsFetch w = Response True (Some d) \<and>
      fst (getAirports e w query s) =
        take 5 (case AmadeusLocationsResponse.data d of None \<Rightarrow> [] | Some ls \<Rightarrow> map toSuggestion ls))"
  by (auto simp: getAirports_def Let_def split: prod.splits sum.splits fetched.splits option.splits)

lemma loadStoredToken_validService [simp]: "loadStoredToken exampleEnv w validService = validService"
  by (simp add: loadStoredToken_def validService_def truthy_def)

lemma getAccessToken_validService [simp]:
  "now_check w < 1793622600000 \<Longrightarrow> getAccessToken e w validService = (Inr ''tok'', validService)"
  by (simp add: getAccessToken_def validService_def truthy_def)

text \<open>
  C2, as the code has it. \<open>getAirports\<close> returns at most 5 suggestions on every path.
  When the primary path fails (no token, no response, a response that is not a success,
  a body that is not JSON) the result is that of \<open>getMockAirports\<close>, and every
  suggestion in it matches the keyword. When the primary path succeeds the result is the
  first 5 locations of the provider's answer, mapped to suggestions; they are not
  checked against the keyword.
\<close>

theorem getAirports_at_most_5:
  "length (fst (getAirports e w query s)) \<le> 5 \<and>
   ((isl (fst (getAccessToken e w (loadStoredToken e w s))) \<or>
     (\<forall>d. locationsFetch w \<noteq> Response True (Some d))) \<longrightarrow>
      fst (getAirports e w query s) = getMockAirports query \<and>
      (\<forall>a \<in> set (fst (getAirports e w query s)). matchesKeyword query a)) \<and>
   (\<forall>d. \<not> isl (fst (getAccessToken e w (loadStoredToken e w s))) \<and>
        locationsFetch w = Response True (Some d) \<longrightarrow>
      fst (getAirports e w query s) =
        take 5 (case AmadeusLocationsResponse.data d of
                  None \<Rightarrow> []
                | Some locations \<Rightarrow> map toSuggestion locations))"
proof (intro conjI impI allI)
  show "length (fst (getAirports e w query s)) \<le> 5"
    using getAirports_cases [of e w query s] length_getMockAirports [of query] by auto
next
  assume fail: "isl (fst (getAccessToken e w (loadStoredToken e w s))) \<or>
     (\<forall>d. locationsFetch w \<noteq> Response True (Some d))"
  then show mock: "fst (getAirports e w query s) = getMockAirports query"
    using getAirports_cases [of e w query s] by auto
  then show "\<forall>a \<in> set (fst (getAirports e w query s)). matchesKeyword query a"
    by (simp add: getMockAirports_matches)
next
  fix d
  assume "\<not> isl (fst (getAccessToken e w (loadStoredToken e w s))) \<and>
      locationsFetch w = Response True (Some d)"
  then show "fst (getAirports e w query s) =
      take 5 (case AmadeusLocationsResponse.data d of
                None \<Rightarrow> []
              | Some locations \<Rightarrow> map toSuggestion locations)"
    by (auto simp: getAirports_def Let_def split: prod.splits sum.splits)
qed

theorem getAirports_at_most_5_witness:
  "length (fst (getAirports exampleEnv (exampleIo\<lparr>locationsFetch := Rejected\<rparr>) ''angeles'' validService)) \<le> 5 \<and>
   map code (getMockAirports ''angeles'') = [''LAX''] \<and>
   list_all (matchesKeyword ''angeles'')
     (fst (getAirports exampleEnv (exampleIo\<lparr>locationsFetch := Rejected\<rparr>) ''angeles'' validService))"
proof -
  let ?w = "exampleIo\<lparr>locationsFetch := Rejected\<rparr>"
  have "\<forall>d. locationsFetch ?w \<noteq> Response True (Some d)"
    by simp
  moreover have "map code (getMockAirports ''angeles'') = [''LAX'']"
    by (simp add: getMockAirports_def mockAirports_def toLowerCase_def toLowerCaseChar_def)
  ultimately show ?thesis
    using getAirports_at_most_5 [of exampleEnv ?w "''angeles''" validService]
    unfolding list_all_iff by blast
qed

text \<open>The claim C2 as it was stated fails on the primary path: the provider's answer to
  the keyword \<open>jfk\<close> is passed on though nothing in it matches.\<close>

theorem getAirports_live_unfiltered:
  "fst (getAirports exampleEnv exampleIo ''jfk'' validService) =
     [\<lparr>code = ''LAX'', city = ''LOS ANGELES'', name = ''LOS ANGELES INTL''\<rparr>] \<and>
   \<not> matchesKeyword ''jfk'' \<lparr>code = ''LAX'', city = ''LOS ANGELES'', name = ''LOS ANGELES INTL''\<rparr>"
  by (simp add: getAirports_def exampleIo_def locationLAX_def toSuggestion_def
      matchesKeyword_def toLowerCase_def toLowerCaseChar_def)

subsection \<open>Price history\<close>

lemma overflowThreshold_large: "3 * 10 ^ 300 < overflowThreshold"
  by (simp add: overflowThreshold_def)

lemma toNumber_Num: "\<bar>x\<bar> < overflowThreshold \<Longrightarrow> toNumber x = Num x"
  by (auto simp: toNumber_def)

lemma toNumber_not_NaN [simp]: "toNumber x \<noteq> NaN"
  by (simp add: toNumber_def)

lemma js_mul_not_NaN:
  assumes "a \<noteq> NaN" and "0 < y"
  shows "js_mul a (Num y) \<noteq> NaN"
  using assms by (cases a) (simp_all add: js_mul_def signOf_def)

lemma Math_round_not_NaN: "a \<noteq> NaN \<Longrightarrow> Math_round a \<noteq> NaN"
  by (cases a) (simp_all add: Math_round_def)

lemma js_ge_Math_max:
  assumes "a \<noteq> NaN" and "b \<noteq> NaN"
  shows "js_ge (Math_max a b) b"
  using assms by (cases a; cases b) (simp_all add: js_ge_def Math_max_def)

lemma Math_round_cases:
  "Math_round a = NaN \<or> Math_round a = PosInfinity \<or> Math_round a = NegInfinity \<or>
   isInteger (Math_round a)"
  by (cases a) (simp_all add: Math_round_def isInteger_def)

lemma Math_max_cases:
  assumes "a = NaN \<or> a = PosInfinity \<or> a = NegInfinity \<or> isInteger a"
    and "b = NaN \<or> b = PosInfinity \<or> b = NegInfinity \<or> isInteger b"
  shows "Math_max a b = NaN \<or> Math_max a b = PosInfinity \<or> Math_max a b = NegInfinity \<or>
         isInteger (Math_max a b)"
proof (cases a; cases b)
  fix x y
  assume ab: "a = Num x" "b = Num y"
  then have "x = of_int \<lfloor>x\<rfloor>" "y = of_int \<lfloor>y\<rfloor>"
    using assms by (simp_all add: isInteger_def)
  then have "max x y = of_int \<lfloor>max x y\<rfloor>"
    by (metis max_def)
  then show ?thesis
    using ab by (simp add: Math_max_def isInteger_def)
qed (use assms in \<open>simp_all add: Math_max_def\<close>)

lemma onePlusRandomVariation: "8 / 10 \<le> 1 + randomVariation w i \<and> 1 + randomVariation w i < 12 / 10"
proof -
  have "0 \<le> randomValue (random w i)" "randomValue (random w i) < 1"
    using randomValue [of "random w i"] by simp_all
  then show ?thesis
    unfolding randomVariation_def by (simp add: algebra_simps)
qed

lemma weekendMultiplier_range: "1 \<le> weekendMultiplier e d \<and> weekendMultiplier e d \<le> 12 / 10"
  by (simp add: weekendMultiplier_def)

lemma seasonalMultiplier_range: "1 \<le> seasonalMultiplier e d \<and> seasonalMultiplier e d \<le> 12 / 10"
  by (simp add: seasonalMultiplier_def)

lemma urgencyMultiplier_range: "1 \<le> urgencyMultiplier i \<and> urgencyMultiplier i \<le> 12 / 10"
  by (simp add: urgencyMultiplier_def)

lemma js_mul_Num_factor:
  assumes "\<bar>x\<bar> \<le> B" and "0 < y" and "y \<le> 12 / 10" and "B * (12 / 10) < overflowThreshold"
  shows "js_mul (Num x) (Num y) = Num (x * y) \<and> \<bar>x * y\<bar> \<le> B * (12 / 10)"
proof -
  have "\<bar>x * y\<bar> = \<bar>x\<bar> * y"
    using assms(2) by (simp add: abs_mult)
  also have "\<dots> \<le> B * (12 / 10)"
    using assms(1-3) by (intro mult_mono) auto
  finally have le: "\<bar>x * y\<bar> \<le> B * (12 / 10)" .
  then have "toNumber (x * y) = Num (x * y)"
    using assms(4) by (intro toNumber_Num) simp
  then show ?thesis
    using le by (simp add: js_mul_def)
qed

lemma price_historyPoint_Num:
  assumes "\<bar>r\<bar> \<le> 10 ^ 300"
  shows "\<exists>k. PriceHistory.price (historyPoint e w (Num r) i) = Num (of_int k) \<and>
             \<lfloor>r * (6 / 10) + 1 / 2\<rfloor> \<le> k"
proof -
  let ?d = "setDate_back e (now_loop w i) i"
  define f1 where "f1 = 1 + randomVariation w i"
  define f2 where "f2 = weekendMultiplier e ?d"
  define f3 where "f3 = seasonalMultiplier e ?d"
  define f4 where "f4 = urgencyMultiplier i"
  have f: "0 < f1" "f1 \<le> 12 / 10" "0 < f2" "f2 \<le> 12 / 10" "0 < f3" "f3 \<le> 12 / 10"
    "0 < f4" "f4 \<le> 12 / 10"
    using onePlusRandomVariation [of w i] weekendMultiplier_range [of e ?d]
      seasonalMultiplier_range [of e ?d] urgencyMultiplier_range [of i]
    by (simp_all add: f1_def f2_def f3_def f4_def)
  have T: "(10 ^ 300 :: real) * (12 / 10) * (12 / 10) * (12 / 10) * (12 / 10) < overflowThreshold"
    using overflowThreshold_large by simp
  then have T1: "(10 ^ 300 :: real) * (12 / 10) < overflowThreshold"
    and T2: "(10 ^ 300 :: real) * (12 / 10) * (12 / 10) < overflowThreshold"
    and T3: "(10 ^ 300 :: real) * (12 / 10) * (12 / 10) * (12 / 10) < overflowThreshold"
    by simp_all
  have m1: "js_mul (Num r) (Num f1) = Num (r * f1) \<and> \<bar>r * f1\<bar> \<le> 10 ^ 300 * (12 / 10)"
    by (rule js_mul_Num_factor [OF assms f(1,2) T1])
  have m2: "js_mul (Num (r * f1)) (Num f2) = Num (r * f1 * f2) \<and>
      \<bar>r * f1 * f2\<bar> \<le> 10 ^ 300 * (12 / 10) * (12 / 10)"
    by (rule js_mul_Num_factor [OF conjunct2 [OF m1] f(3,4) T2])
  have m3: "js_mul (Num (r * f1 * f2)) (Num f3) = Num (r * f1 * f2 * f3) \<and>
      \<bar>r * f1 * f2 * f3\<bar> \<le> 10 ^ 300 * (12 / 10) * (12 / 10) * (12 / 10)"
    by (rule js_mul_Num_factor [OF conjunct2 [OF m2] f(5,6) T3])
  have m4: "js_mul (Num (r * f1 * f2 * f3)) (Num f4) = Num (r * f1 * f2 * f3 * f4) \<and>
      \<bar>r * f1 * f2 * f3 * f4\<bar> \<le> 10 ^ 300 * (12 / 10) * (12 / 10) * (12 / 10) * (12 / 10)"
    by (rule js_mul_Num_factor [OF conjunct2 [OF m3] f(7,8) T])
  have m0: "js_mul (Num r) (Num (6 / 10)) = Num (r * (6 / 10))"
    using js_mul_Num_factor [OF assms, of "6 / 10"] T1 by simp
  define x where "x = r * f1 * f2 * f3 * f4"
  have "PriceHistory.price (historyPoint e w (Num r) i) =
      Num (max (of_int \<lfloor>x + 1 / 2\<rfloor>) (of_int \<lfloor>r * (6 / 10) + 1 / 2\<rfloor>))"
    using m1 m2 m3 m4 m0
    by (simp add: historyPoint_def Let_def Math_round_def Math_max_def x_def
        f1_def [symmetric] f2_def [symmetric] f3_def [symmetric] f4_def [symmetric])
  also have "\<dots> = Num (of_int (max \<lfloor>x + 1 / 2\<rfloor> \<lfloor>r * (6 / 10) + 1 / 2\<rfloor>))"
    by (simp add: of_int_max)
  finally show ?thesis by (intro exI conjI) (assumption, simp)
qed

lemma price_historyPoint_floor:
  assumes "b \<noteq> NaN"
  shows "js_ge (PriceHistory.price (historyPoint e w b i)) (Math_round (js_mul b (Num (6 / 10))))"
proof -
  let ?d = "setDate_back e (now_loop w i) i"
  have "0 < 1 + randomVariation w i" "0 < weekendMultiplier e ?d" "0 < seasonalMultiplier e ?d"
    "0 < urgencyMultiplier i"
    using onePlusRandomVariation [of w i] weekendMultiplier_range [of e ?d]
      seasonalMultiplier_range [of e ?d] urgencyMultiplier_range [of i]
    by simp_all
  then have "Math_round
      (js_mul (js_mul (js_mul (js_mul b (Num (1 + randomVariation w i)))
         (Num (weekendMultiplier e ?d))) (Num (seasonalMultiplier e ?d)))
         (Num (urgencyMultiplier i))) \<noteq> NaN"
    using assms by (intro Math_round_not_NaN js_mul_not_NaN)
  moreover have "Math_round (js_mul b (Num (6 / 10))) \<noteq> NaN"
    using assms by (intro Math_round_not_NaN js_mul_not_NaN) simp_all
  ultimately show ?thesis
    by (simp add: historyPoint_def Let_def js_ge_Math_max)
qed

lemma price_historyPoint_cases:
  "PriceHistory.price (historyPoint e w b i) = NaN \<or>
   PriceHistory.price (historyPoint e w b i) = PosInfinity \<or>
   PriceHistory.price (historyPoint e w b i) = NegInfinity \<or>
   isInteger (PriceHistory.price (historyPoint e w b i))"
  by (simp add: historyPoint_def Let_def Math_max_cases Math_round_cases)

lemma foldl_js_add_not_NaN:
  "acc \<noteq> NaN \<Longrightarrow> foldl js_add acc (map Num rs) \<noteq> NaN"
proof (induction rs arbitrary: acc)
  case Nil
  then show ?case by simp
next
  case (Cons r rs)
  have "js_add acc (Num r) \<noteq> NaN"
    using Cons.prems by (cases acc) (simp_all add: js_add_def)
  then show ?case
    using Cons.IH by simp
qed

lemma foldl_js_add_Num:
  "\<bar>a\<bar> + sum_list (map abs rs) < overflowThreshold \<Longrightarrow>
   foldl js_add (Num a) (map Num rs) = Num (a + sum_list rs)"
proof (induction rs arbitrary: a)
  case Nil
  then show ?case by simp
next
  case (Cons r rs)
  have nonneg: "0 \<le> sum_list (map abs rs)"
    by (rule sum_list_nonneg) auto
  have "\<bar>a + r\<bar> \<le> \<bar>a\<bar> + \<bar>r\<bar>"
    by (rule abs_triangle_ineq)
  then have small: "\<bar>a + r\<bar> + sum_list (map abs rs) < overflowThreshold"
    using Cons.prems by simp
  then have "\<bar>a + r\<bar> < overflowThreshold"
    using nonneg by linarith
  then have "js_add (Num a) (Num r) = Num (a + r)"
    by (simp add: js_add_def toNumber_Num)
  then show ?case
    using Cons.IH [OF small] by (simp add: add.assoc)
qed

lemma averagePrice_not_NaN:
  assumes "map (\<lambda>offer. parseFloat (total (AmadeusFlightOffer.price offer))) offers = map Num rs"
    and "offers \<noteq> []"
  shows "averagePrice offers \<noteq> NaN"
proof -
  have "foldl js_add (Num 0) (map Num rs) \<noteq> NaN"
    by (rule foldl_js_add_not_NaN) simp
  moreover have "js_div a (Num (real (length offers))) \<noteq> NaN" if "a \<noteq> NaN" for a
    using that assms(2) by (cases a) (simp_all add: js_div_def)
  moreover have "length rs = length offers"
    using assms(1) by (metis length_map)
  ultimately show ?thesis
    using assms(1) by (simp add: averagePrice_def Let_def)
qed

lemma averagePrice_Num:
  assumes "map (\<lambda>offer. parseFloat (total (AmadeusFlightOffer.price offer))) offers = map Num rs"
    and "offers \<noteq> []" and "sum_list (map abs rs) \<le> 10 ^ 300"
  shows "averagePrice offers = Num (sum_list rs / real (length rs))"
proof -
  have len: "length rs = length offers"
    using assms(1) by (metis length_map)
  then have n: "1 \<le> real (length rs)"
    using assms(2) by (cases rs) auto
  have small: "\<bar>0\<bar> + sum_list (map abs rs) < overflowThreshold"
    using assms(3) overflowThreshold_large by simp
  have "\<bar>sum_list rs\<bar> / real (length rs) \<le> \<bar>sum_list rs\<bar> / 1"
    using n by (intro divide_left_mono) auto
  then have "\<bar>sum_list rs / real (length rs)\<bar> \<le> \<bar>sum_list rs\<bar>"
    by simp
  also have "\<dots> \<le> sum_list (map abs rs)"
    by (rule sum_list_abs)
  finally have "\<bar>sum_list rs / real (length rs)\<bar> < overflowThreshold"
    using small by simp
  then show ?thesis
    using assms(1,2) n len foldl_js_add_Num [OF small]
    by (simp add: averagePrice_def Let_def js_div_def toNumber_Num)
qed

lemma historyLoop_eq:
  "historyLoop e w b n acc = acc @ map (historyPoint e w b) (rev [0..<Suc n])"
  by (induction n arbitrary: acc) simp_all

lemma historyLoop_nth:
  assumes "k \<le> 30"
  shows "historyLoop e w b 30 [] ! k = historyPoint e w b (30 - k)"
proof -
  have "rev [0..<31] ! k = [0..<31] ! (30 - k)"
    using assms by (simp add: rev_nth)
  also have "\<dots> = 30 - k"
    using assms by (simp del: upt_Suc)
  finally show ?thesis
    using assms by (simp add: historyLoop_eq del: upt_Suc)
qed

lemma length_synthesize: "length (synthesize e w b) = 31"
  by (simp add: synthesize_def historyLoop_eq)

lemma set_synthesize: "set (synthesize e w b) = historyPoint e w b ` {0..30}"
proof -
  have "{0..<31::nat} = {0..30}" by auto
  then show ?thesis by (simp add: synthesize_def historyLoop_eq)
qed

text \<open>When the local offset on the day a pass reaches is the offset at the clock reading of
  the pass, the pass goes back by whole days in UTC as well.\<close>

lemma date_historyPoint_same_offset:
  assumes "LocalTZA e (now_loop w i) True =
      LocalTZA e (LocalTime e (now_loop w i) - int i * msPerDay) False"
  shows "PriceHistory.date (historyPoint e w b i) = Day (now_loop w i) - int i"
proof -
  have "setDate_back e (now_loop w i) i = now_loop w i - int i * msPerDay"
    using assms by (simp add: setDate_back_def UTC_def LocalTime_def)
  moreover have "(now_loop w i - int i * msPerDay) div msPerDay = now_loop w i div msPerDay - int i"
    by (simp add: msPerDay_def)
  ultimately show ?thesis
    by (simp add: historyPoint_def Let_def isoDate_def Day_def)
qed

lemma date_historyPoint_const_offset:
  assumes "\<forall>t u. LocalTZA e t u = c"
  shows "PriceHistory.date (historyPoint e w b i) = Day (now_loop w i) - int i"
  by (rule date_historyPoint_same_offset) (simp add: assms)

lemma Day_mono: "a \<le> b \<Longrightarrow> Day a \<le> Day b"
  by (simp add: Day_def msPerDay_def zdiv_mono1)

lemma strictly_ascending_generated:
  assumes tz: "\<forall>i\<le>n. LocalTZA e (now_loop w i) True =
      LocalTZA e (LocalTime e (now_loop w i) - int i * msPerDay) False"
    and clock: "\<forall>i j. i \<le> j \<and> j \<le> n \<longrightarrow> now_loop w j \<le> now_loop w i"
  shows "sorted_wrt (<) (map PriceHistory.date (historyLoop e w b n []))"
proof -
  let ?f = "\<lambda>i. PriceHistory.date (historyPoint e w b i)"
  have dec: "?f j < ?f i" if "i < j" "j \<le> n" for i j
  proof -
    have "Day (now_loop w j) \<le> Day (now_loop w i)"
      using that clock by (intro Day_mono) auto
    moreover have "?f i = Day (now_loop w i) - int i" "?f j = Day (now_loop w j) - int j"
      using that tz by (simp_all add: date_historyPoint_same_offset)
    ultimately show ?thesis
      using that by simp
  qed
  have "sorted_wrt (\<lambda>i j. ?f j < ?f i) [0..<Suc n]"
    by (rule sorted_wrt_mono_rel [OF _ sorted_wrt_upt]) (auto intro: dec)
  then have "sorted_wrt (\<lambda>i j. ?f i < ?f j) (rev [0..<Suc n])"
    by (simp only: sorted_wrt_rev)
  then show ?thesis
    by (simp only: historyLoop_eq append_Nil map_map sorted_wrt_map o_def)
qed

lemma synthesize_generated:
  assumes tz: "\<forall>i\<le>30. LocalTZA e (now_loop w i) True =
      LocalTZA e (LocalTime e (now_loop w i) - int i * msPerDay) False"
    and clock: "\<forall>i j. i \<le> j \<and> j \<le> 30 \<longrightarrow> now_loop w j \<le> now_loop w i"
  shows "synthesize e w b = historyLoop e w b 30 []"
  unfolding synthesize_def
  by (rule sort_key_id_if_sorted)
     (rule strict_sorted_imp_sorted, rule strictly_ascending_generated [OF tz clock])

lemma price_historyPoint_NaN: "PriceHistory.price (historyPoint e w NaN i) = NaN"
  by (simp add: historyPoint_def Let_def js_mul_def Math_round_def Math_max_def)

lemma map_price_synthesize_NaN:
  "map PriceHistory.price (synthesize e w NaN) = replicate 31 NaN"
proof -
  have "\<forall>p \<in> set (synthesize e w NaN). PriceHistory.price p = NaN"
    by (auto simp: set_synthesize price_historyPoint_NaN)
  then have "map PriceHistory.price (synthesize e w NaN) =
      replicate (length (synthesize e w NaN)) NaN"
    by (simp add: map_replicate_const [symmetric] cong: map_cong)
  then show ?thesis by (simp add: length_synthesize)
qed

lemma getPriceHistory_synthesize:
  assumes "getAccessToken e w (loadStoredToken e w s) = (Inr token, s2)"
    and "samplePrice (offersFetch w) = Inr b"
  shows "fst (getPriceHistory e w origin' destination' s) = synthesize e w b"
  using assms by (simp add: getPriceHistory_def Let_def)

lemma samplePrice_cases:
  assumes "samplePrice r = Inr b"
  shows "(returnedOffers r = [] \<and> b = Num 250) \<or>
         (returnedOffers r \<noteq> [] \<and> b = averagePrice (returnedOffers r))"
  using assms
  by (auto simp: samplePrice_def returnedOffers_def split: fetched.splits if_splits option.splits)

lemma samplePrice_not_NaN:
  assumes "samplePrice r = Inr b"
    and "map (\<lambda>offer. parseFloat (total (AmadeusFlightOffer.price offer))) (returnedOffers r) = map Num rs"
  shows "b \<noteq> NaN"
  using samplePrice_cases [OF assms(1)] averagePrice_not_NaN [OF assms(2)] by auto

lemma samplePrice_mean:
  assumes "samplePrice r = Inr b"
    and "map (\<lambda>offer. parseFloat (total (AmadeusFlightOffer.price offer))) (returnedOffers r) = map Num rs"
    and "sum_list (map abs rs) \<le> 10 ^ 300"
  shows "b = Num (if rs = [] then 250 else sum_list rs / real (length rs))"
proof (cases "returnedOffers r = []")
  case True
  then have "rs = []" using assms(2) by simp
  then show ?thesis
    using samplePrice_cases [OF assms(1)] True by simp
next
  case False
  then have "rs \<noteq> []" using assms(2) by auto
  then show ?thesis
    using samplePrice_cases [OF assms(1)] False averagePrice_Num [OF assms(2) False assms(3)]
    by simp
qed

lemma mean_bounded:
  assumes "sum_list (map abs rs) \<le> 10 ^ 300"
  shows "\<bar>if rs = [] then 250 else sum_list rs / real (length rs)\<bar> \<le> 10 ^ 300"
proof (cases rs)
  case Nil
  then show ?thesis by simp
next
  case (Cons r rs')
  then have "1 \<le> real (length rs)" by simp
  then have "\<bar>sum_list rs\<bar> / real (length rs) \<le> \<bar>sum_list rs\<bar> / 1"
    by (intro divide_left_mono) auto
  then have "\<bar>sum_list rs / real (length rs)\<bar> \<le> \<bar>sum_list rs\<bar>"
    by simp
  also have "\<dots> \<le> sum_list (map abs rs)"
    by (rule sum_list_abs)
  finally show ?thesis
    using assms Cons by simp
qed

text \<open>
  C1, as the code has it. After a token was acquired: when the offer request gets no
  response at all, the rejected \<open>fetch\<close> is caught and \<open>getPriceHistory\<close> returns the
  empty array; when the provider answers with a status that is not a success, the
  result is the history synthesised from the base price 250, 31 points, each price a
  whole number not below 150.
\<close>

theorem getPriceHistory_unanswered_or_refused:
  assumes "getAccessToken e w (loadStoredToken e w s) = (Inr token, s2)"
  shows "(offersFetch w = Rejected \<longrightarrow> fst (getPriceHistory e w origin' destination' s) = []) \<and>
         (\<forall>body. offersFetch w = Response False body \<longrightarrow>
            fst (getPriceHistory e w origin' destination' s) = synthesize e w (Num 250) \<and>
            length (fst (getPriceHistory e w origin' destination' s)) = 31 \<and>
            (\<forall>p \<in> set (fst (getPriceHistory e w origin' destination' s)).
               \<exists>k. PriceHistory.price p = Num (of_int k) \<and> 150 \<le> k))"
proof (intro conjI impI allI)
  assume "offersFetch w = Rejected"
  then show "fst (getPriceHistory e w origin' destination' s) = []"
    using assms by (simp add: getPriceHistory_def Let_def samplePrice_def)
next
  fix body
  assume "offersFetch w = Response False body"
  then have "samplePrice (offersFetch w) = Inr (Num 250)"
    by (simp add: samplePrice_def)
  then show eq: "fst (getPriceHistory e w origin' destination' s) = synthesize e w (Num 250)"
    using assms by (rule getPriceHistory_synthesize [rotated])
  show "length (fst (getPriceHistory e w origin' destination' s)) = 31"
    by (simp add: eq length_synthesize)
  have "\<lfloor>250 * (6 / 10) + 1 / 2 :: real\<rfloor> = 150"
    by (simp add: floor_eq_iff)
  moreover have "\<bar>250 :: real\<bar> \<le> 10 ^ 300"
    by simp
  ultimately have "\<exists>k. PriceHistory.price (historyPoint e w (Num 250) i) = Num (of_int k) \<and> 150 \<le> k"
    for i
    using price_historyPoint_Num [of 250 e w i] by simp
  then show "\<forall>p \<in> set (fst (getPriceHistory e w origin' destination' s)).
      \<exists>k. PriceHistory.price p = Num (of_int k) \<and> 150 \<le> k"
    by (auto simp: eq set_synthesize)
qed

theorem getPriceHistory_unanswered_or_refused_witness:
  "fst (getPriceHistory exampleEnv (exampleIo\<lparr>offersFetch := Response False None\<rparr>) ''JFK'' ''LAX'' validService)
     = synthesize exampleEnv (exampleIo\<lparr>offersFetch := Response False None\<rparr>) (Num 250) \<and>
   length (fst (getPriceHistory exampleEnv (exampleIo\<lparr>offersFetch := Response False None\<rparr>) ''JFK'' ''LAX'' validService)) = 31 \<and>
   fst (getPriceHistory exampleEnv (exampleIo\<lparr>offersFetch := Rejected\<rparr>) ''JFK'' ''LAX'' validService) = []"
proof -
  let ?refused = "exampleIo\<lparr>offersFetch := Response False None\<rparr>"
  let ?unanswered = "exampleIo\<lparr>offersFetch := Rejected\<rparr>"
  have tok: "getAccessToken exampleEnv w (loadStoredToken exampleEnv w validService) = (Inr ''tok'', validService)"
    if "now_check w = 1793620800001" for w
    using that by simp
  have now: "now_check ?refused = 1793620800001" "now_check ?unanswered = 1793620800001"
    by (simp_all add: exampleIo_def)
  have refused: "offersFetch ?refused = Response False None"
    and unanswered: "offersFetch ?unanswered = Rejected"
    by simp_all
  from getPriceHistory_unanswered_or_refused [OF tok [OF now(1)], of "''JFK''" "''LAX''"] refused
  have "fst (getPriceHistory exampleEnv ?refused ''JFK'' ''LAX'' validService)
      = synthesize exampleEnv ?refused (Num 250) \<and>
    length (fst (getPriceHistory exampleEnv ?refused ''JFK'' ''LAX'' validService)) = 31"
    by blast
  moreover
  from getPriceHistory_unanswered_or_refused [OF tok [OF now(2)], of "''JFK''" "''LAX''"] unanswered
  have "fst (getPriceHistory exampleEnv ?unanswered ''JFK'' ''LAX'' validService) = []"
    by blast
  ultimately show ?thesis
    by blast
qed

text \<open>The claim C1 as it was stated fails: with a token in hand and the offer request
  sent, a \<open>fetch\<close> that is rejected leaves the caller with the empty array.\<close>

theorem getPriceHistory_unreachable_empty:
  "fst (getPriceHistory exampleEnv (exampleIo\<lparr>offersFetch := Rejected\<rparr>) ''JFK'' ''LAX'' validService) = [] \<and>
   requests (snd (getPriceHistory exampleEnv (exampleIo\<lparr>offersFetch := Rejected\<rparr>) ''JFK'' ''LAX'' validService))
     = [GET_flight_offers ''JFK'' ''LAX'']"
  by (simp add: getPriceHistory_def samplePrice_def exampleIo_def, simp add: validService_def)

text \<open>
  C3, as the code has it. Let \<open>getPriceHistory\<close> return its synthesised history: a
  token was acquired and no exception left the \<open>try\<close> block. Let every offer the
  provider returned have a total that \<open>parseFloat\<close> reads as a finite number. Then the
  result is the history synthesised from the base price \<open>b\<close> that the code computed, it
  has 31 points in ascending order of date, \<open>b\<close> is not \<open>NaN\<close>, and every price is at
  least \<open>Math.round\<close> of 0.6 times \<open>b\<close>. The base price is the arithmetic mean of the
  parsed totals, or 250 when no offer was returned, as long as the magnitudes of the
  totals add up to no more than \<open>10^300\<close>; beyond that the sum can overflow to an
  infinity. The dates are strictly ascending when, in each pass of the loop, the local
  offset from UTC on the day the pass reaches is the offset at the clock reading of the
  pass, and the clock does not go back during the loop.
\<close>

theorem getPriceHistory_31_ascending_floor:
  assumes tok: "getAccessToken e w (loadStoredToken e w s) = (Inr token, s2)"
    and sample: "samplePrice (offersFetch w) = Inr b"
    and parsed: "map (\<lambda>offer. parseFloat (total (AmadeusFlightOffer.price offer)))
                   (returnedOffers (offersFetch w)) = map Num rs"
  shows "fst (getPriceHistory e w origin' destination' s) = synthesize e w b \<and>
         length (fst (getPriceHistory e w origin' destination' s)) = 31 \<and>
         sorted (map PriceHistory.date (fst (getPriceHistory e w origin' destination' s))) \<and>
         b \<noteq> NaN \<and>
         (\<forall>p \<in> set (fst (getPriceHistory e w origin' destination' s)).
            js_ge (PriceHistory.price p) (Math_round (js_mul b (Num (6 / 10))))) \<and>
         (sum_list (map abs rs) \<le> 10 ^ 300 \<longrightarrow>
            b = Num (if rs = [] then 250 else sum_list rs / real (length rs))) \<and>
         ((\<forall>i\<le>30. LocalTZA e (now_loop w i) True =
              LocalTZA e (LocalTime e (now_loop w i) - int i * msPerDay) False) \<and>
          (\<forall>i j. i \<le> j \<and> j \<le> 30 \<longrightarrow> now_loop w j \<le> now_loop w i) \<longrightarrow>
            sorted_wrt (<)
              (map PriceHistory.date (fst (getPriceHistory e w origin' destination' s))))"
proof -
  have eq: "fst (getPriceHistory e w origin' destination' s) = synthesize e w b"
    by (rule getPriceHistory_synthesize [OF tok sample])
  have b: "b \<noteq> NaN"
    by (rule samplePrice_not_NaN [OF sample parsed])
  have asc: "sorted_wrt (<) (map PriceHistory.date (synthesize e w b))"
    if tz: "\<forall>i\<le>30. LocalTZA e (now_loop w i) True =
        LocalTZA e (LocalTime e (now_loop w i) - int i * msPerDay) False"
      and clock: "\<forall>i j. i \<le> j \<and> j \<le> 30 \<longrightarrow> now_loop w j \<le> now_loop w i"
    using strictly_ascending_generated [OF tz clock] synthesize_generated [OF tz clock] by simp
  have floor: "\<forall>p \<in> set (synthesize e w b).
      js_ge (PriceHistory.price p) (Math_round (js_mul b (Num (6 / 10))))"
    using price_historyPoint_floor [OF b] by (auto simp: set_synthesize)
  have mean: "b = Num (if rs = [] then 250 else sum_list rs / real (length rs))"
    if "sum_list (map abs rs) \<le> 10 ^ 300"
    by (rule samplePrice_mean [OF sample parsed that])
  have "sorted (map PriceHistory.date (synthesize e w b))"
    by (simp add: synthesize_def)
  then show ?thesis
    unfolding eq using b asc floor mean length_synthesize [of e w b] by blast
qed

theorem getPriceHistory_31_ascending_floor_witness:
  "length (fst (getPriceHistory londonEnv londonJulyIo ''JFK'' ''LAX'' validService)) = 31 \<and>
   sorted_wrt (<)
     (map PriceHistory.date (fst (getPriceHistory londonEnv londonJulyIo ''JFK'' ''LAX'' validService))) \<and>
   samplePrice (offersFetch londonJulyIo) = Inr (Num (19999 / 100)) \<and>
   list_all (\<lambda>p. js_ge (PriceHistory.price p) (Num 120))
     (fst (getPriceHistory londonEnv londonJulyIo ''JFK'' ''LAX'' validService))"
proof -
  have tok: "getAccessToken londonEnv londonJulyIo (loadStoredToken londonEnv londonJulyIo validService)
      = (Inr ''tok'', validService)"
    by (simp add: loadStoredToken_empty_store validService_def getAccessToken_def truthy_def
        londonJulyIo_def exampleIo_def)
  have sample: "samplePrice (offersFetch londonJulyIo) = Inr (averagePrice [offerX])"
    by (simp add: samplePrice_def londonJulyIo_def exampleIo_def)
  have parsed: "map (\<lambda>offer. parseFloat (total (AmadeusFlightOffer.price offer)))
      (returnedOffers (offersFetch londonJulyIo)) = map Num [19999 / 100]"
    by (simp add: returnedOffers_def londonJulyIo_def exampleIo_def offerX_def parseFloat_199_99)
  have small: "sum_list (map abs [19999 / 100 :: real]) \<le> 10 ^ 300"
    by simp
  have tz: "\<forall>i\<le>30. LocalTZA londonEnv (now_loop londonJulyIo i) True =
      LocalTZA londonEnv (LocalTime londonEnv (now_loop londonJulyIo i) - int i * msPerDay) False"
    by (auto simp: londonEnv_def londonJulyIo_def LocalTime_def msPerDay_def)
  have clock: "\<forall>i j. i \<le> j \<and> j \<le> 30 \<longrightarrow> now_loop londonJulyIo j \<le> now_loop londonJulyIo i"
    by (simp add: londonJulyIo_def)
  note th = getPriceHistory_31_ascending_floor [OF tok sample parsed, of "''JFK''" "''LAX''"]
  have avg: "averagePrice [offerX] = Num (19999 / 100)"
    using th small by simp
  have floor: "Math_round (js_mul (Num (19999 / 100)) (Num (6 / 10))) = Num 120"
    by (simp add: Math_round_def js_mul_def toNumber_def overflowThreshold_def floor_eq_iff)
  from th tz clock sample show ?thesis
    unfolding avg floor list_all_iff by blast
qed

text \<open>The claim C3 as it was stated fails for a provider response with a total that is
  not a number: the base price is \<open>NaN\<close>, so is every price, and \<open>NaN\<close> is not at
  least anything.\<close>

theorem getPriceHistory_unparsed_total:
  "averagePrice [offerNoPrice] = NaN \<and>
   map PriceHistory.price
     (fst (getPriceHistory exampleEnv
        (exampleIo\<lparr>offersFetch :=
           Response True (Some \<lparr>AmadeusFlightOffersResponse.data = Some [offerNoPrice]\<rparr>)\<rparr>)
        ''JFK'' ''LAX'' validService)) = replicate 31 NaN \<and>
   \<not> js_ge NaN (Math_round (js_mul (averagePrice [offerNoPrice]) (Num (6 / 10))))"
proof -
  let ?w = "exampleIo\<lparr>offersFetch :=
           Response True (Some \<lparr>AmadeusFlightOffersResponse.data = Some [offerNoPrice]\<rparr>)\<rparr>"
  have avg: "averagePrice [offerNoPrice] = NaN"
    by (simp add: averagePrice_def offerNoPrice_def parseFloat_N_A js_add_def js_div_def)
  have tok: "getAccessToken exampleEnv ?w (loadStoredToken exampleEnv ?w validService)
      = (Inr ''tok'', validService)"
    by (simp add: exampleIo_def)
  have sample: "samplePrice (offersFetch ?w) = Inr NaN"
    by (simp add: samplePrice_def avg)
  show ?thesis
    by (simp add: getPriceHistory_synthesize [OF tok sample] map_price_synthesize_NaN avg js_ge_def)
qed

text \<open>
  The assumption on the host's offset in C3 is needed. The loop goes back in local time
  and prints the date in UTC: on the London host of \<open>londonEnv\<close>, half an hour after
  local midnight, the passes 5 and 6 land on 31 March 00:30 summer time and on 30 March
  00:30 winter time, which are both 30 March in UTC (day 20177). The result then holds
  the same date twice.
\<close>

lemma london_dates:
  "PriceHistory.date (historyPoint londonEnv londonIo b 5) = 20177 \<and>
   PriceHistory.date (historyPoint londonEnv londonIo b 6) = 20177"
  by (simp add: historyPoint_def Let_def isoDate_def Day_def msPerDay_def setDate_back_def
      UTC_def LocalTime_def londonEnv_def londonIo_def)

lemma distinct_map_sort_key: "distinct (map f (sort_key f xs)) = distinct (map f xs)"
  by (simp add: distinct_map)

lemma london_not_strictly_ascending:
  "\<not> sorted_wrt (<) (map PriceHistory.date (synthesize londonEnv londonIo b))"
proof
  let ?dates = "map PriceHistory.date (historyLoop londonEnv londonIo b 30 [])"
  assume "sorted_wrt (<) (map PriceHistory.date (synthesize londonEnv londonIo b))"
  then have "distinct (map PriceHistory.date (synthesize londonEnv londonIo b))"
    by (simp add: strict_sorted_iff)
  then have "distinct ?dates"
    by (simp only: synthesize_def distinct_map_sort_key)
  moreover have len: "length ?dates = 31"
    by (simp add: historyLoop_eq)
  ultimately have "\<forall>i<31. \<forall>j<31. i \<noteq> j \<longrightarrow> ?dates ! i \<noteq> ?dates ! j"
    by (simp add: distinct_conv_nth)
  from this [rule_format, of 24 25] have "?dates ! 24 \<noteq> ?dates ! 25"
    by simp
  moreover have "?dates ! 24 = 20177" "?dates ! 25 = 20177"
    using london_dates [of b] len by (simp_all add: historyLoop_nth)
  ultimately show False
    by simp
qed

text \<open>
  A total that is a finite number does not keep the prices finite. With the total
  \<open>1.7e308\<close> the base price is finite, but for the oldest day, whose urgency
  multiplier is 1.2, the product leaves the doubles: \<open>Math.round\<close> and \<open>Math.max\<close>
  keep the infinity, and the result has a price that is no whole number.
\<close>

lemma js_mul_positive:
  assumes "0 < x" and "0 < y"
  shows "js_mul (Num x) (Num y) = PosInfinity \<or>
         (js_mul (Num x) (Num y) = Num (x * y) \<and> x * y < overflowThreshold)"
proof -
  have "0 < x * y"
    using assms by simp
  then show ?thesis
    by (auto simp: js_mul_def toNumber_def)
qed

lemma js_mul_PosInfinity: "0 < y \<Longrightarrow> js_mul PosInfinity (Num y) = PosInfinity"
  by (simp add: js_mul_def signOf_def)

lemma js_mul_overflow: "overflowThreshold \<le> x * y \<Longrightarrow> js_mul (Num x) (Num y) = PosInfinity"
  by (simp add: js_mul_def toNumber_def)

lemma product_overflow:
  assumes B: "0 < B" and f: "1 \<le> f2" "1 \<le> f3" and big: "overflowThreshold \<le> B * (12 / 10)"
  shows "js_mul (js_mul (js_mul (js_mul (Num B) (Num 1)) (Num f2)) (Num f3)) (Num (12 / 10))
      = PosInfinity"
proof -
  have pos: "0 < f2" "0 < f3"
    using f by simp_all
  have "1 * 1 \<le> f2 * f3"
    using f by (intro mult_mono) auto
  then have "B * 1 \<le> B * (f2 * f3)"
    using B by (intro mult_left_mono) auto
  then have "B * (12 / 10) \<le> B * 1 * f2 * f3 * (12 / 10)"
    by (simp add: mult.assoc)
  then have big': "overflowThreshold \<le> B * 1 * f2 * f3 * (12 / 10)"
    using big by linarith
  consider (a) "js_mul (Num B) (Num 1) = PosInfinity"
    | (b) "js_mul (Num B) (Num 1) = Num (B * 1)"
    using js_mul_positive [of B 1] B by auto
  then have "js_mul (js_mul (Num B) (Num 1)) (Num f2) = PosInfinity \<or>
      js_mul (js_mul (Num B) (Num 1)) (Num f2) = Num (B * 1 * f2)"
  proof cases
    case a
    then show ?thesis by (simp add: js_mul_PosInfinity pos)
  next
    case b
    then show ?thesis
      using js_mul_positive [of "B * 1" f2] B pos by auto
  qed
  then have "js_mul (js_mul (js_mul (Num B) (Num 1)) (Num f2)) (Num f3) = PosInfinity \<or>
      js_mul (js_mul (js_mul (Num B) (Num 1)) (Num f2)) (Num f3) = Num (B * 1 * f2 * f3)"
  proof
    assume "js_mul (js_mul (Num B) (Num 1)) (Num f2) = PosInfinity"
    then show ?thesis by (simp add: js_mul_PosInfinity pos)
  next
    assume "js_mul (js_mul (Num B) (Num 1)) (Num f2) = Num (B * 1 * f2)"
    moreover have "0 < B * 1 * f2"
      using B pos by simp
    ultimately show ?thesis
      using js_mul_positive [of "B * 1 * f2" f3] pos by auto
  qed
  then show ?thesis
  proof
    assume "js_mul (js_mul (js_mul (Num B) (Num 1)) (Num f2)) (Num f3) = PosInfinity"
    then show ?thesis by (simp add: js_mul_PosInfinity)
  next
    assume "js_mul (js_mul (js_mul (Num B) (Num 1)) (Num f2)) (Num f3) = Num (B * 1 * f2 * f3)"
    then show ?thesis
      using js_mul_overflow [OF big'] by simp
  qed
qed

lemma price_overflow:
  "PriceHistory.price (historyPoint e exampleIo (Num (17 * 10 ^ 307)) 30) = PosInfinity"
proof -
  let ?d = "setDate_back e (now_loop exampleIo 30) 30"
  have rv: "1 + randomVariation exampleIo 30 = 1"
    by (simp add: randomVariation_def exampleIo_def RandomNumber_inverse)
  have u: "urgencyMultiplier 30 = 12 / 10"
    by (simp add: urgencyMultiplier_def daysFromToday_def)
  have big: "overflowThreshold \<le> 17 * 10 ^ 307 * (12 / 10)"
    by (simp add: overflowThreshold_def)
  have "js_mul (js_mul (js_mul (js_mul (Num (17 * 10 ^ 307)) (Num 1))
      (Num (weekendMultiplier e ?d))) (Num (seasonalMultiplier e ?d))) (Num (12 / 10)) = PosInfinity"
    using weekendMultiplier_range [of e ?d] seasonalMultiplier_range [of e ?d]
    by (intro product_overflow big) simp_all
  moreover have "Math_round (js_mul (Num (17 * 10 ^ 307)) (Num (6 / 10))) \<noteq> NaN"
    by (intro Math_round_not_NaN js_mul_not_NaN) simp_all
  ultimately show ?thesis
    by (simp only: historyPoint_def Let_def rv u PriceHistory.simps)
       (simp add: Math_round_def Math_max_def)
qed

lemma getPriceHistory_overflow:
  "list_ex (\<lambda>p. PriceHistory.price p = PosInfinity)
     (fst (getPriceHistory exampleEnv
        (exampleIo\<lparr>offersFetch :=
           Response True (Some \<lparr>AmadeusFlightOffersResponse.data = Some [offerHuge]\<rparr>)\<rparr>)
        ''JFK'' ''LAX'' validService))"
proof -
  let ?w = "exampleIo\<lparr>offersFetch :=
           Response True (Some \<lparr>AmadeusFlightOffersResponse.data = Some [offerHuge]\<rparr>)\<rparr>"
  have avg: "averagePrice [offerHuge] = Num (17 * 10 ^ 307)"
    by (simp add: averagePrice_def offerHuge_def parseFloat_1_7e308 js_add_def js_div_def
        toNumber_def overflowThreshold_def)
  have tok: "getAccessToken exampleEnv ?w (loadStoredToken exampleEnv ?w validService)
      = (Inr ''tok'', validService)"
    by (simp add: exampleIo_def)
  have sample: "samplePrice (offersFetch ?w) = Inr (Num (17 * 10 ^ 307))"
    by (simp add: samplePrice_def avg)
  have same: "historyPoint exampleEnv ?w b i = historyPoint exampleEnv exampleIo b i" for b i
    by (simp add: historyPoint_def randomVariation_def)
  have "historyPoint exampleEnv ?w (Num (17 * 10 ^ 307)) 30
      \<in> set (synthesize exampleEnv ?w (Num (17 * 10 ^ 307)))"
    by (simp only: set_synthesize) simp
  moreover have "PriceHistory.price (historyPoint exampleEnv ?w (Num (17 * 10 ^ 307)) 30) = PosInfinity"
    by (simp only: same price_overflow)
  ultimately show ?thesis
    unfolding getPriceHistory_synthesize [OF tok sample] list_ex_iff by blast
qed

text \<open>
  C9, as the code has it. Whenever \<open>getPriceHistory\<close> returns its synthesised history,
  every price in it is the \<open>Math.max\<close> of two results of \<open>Math.round\<close>: it is
  \<open>NaN\<close>, an infinity, or a whole number. It is a whole number when every returned
  total is read as a finite number and the magnitudes of the totals add up to no more
  than \<open>10^300\<close>, which keeps every product in the range of the finite doubles.
\<close>

theorem getPriceHistory_integer_prices:
  assumes tok: "getAccessToken e w (loadStoredToken e w s) = (Inr token, s2)"
    and sample: "samplePrice (offersFetch w) = Inr b"
  shows "(\<forall>p \<in> set (fst (getPriceHistory e w origin' destination' s)).
            PriceHistory.price p = NaN \<or> PriceHistory.price p = PosInfinity \<or>
            PriceHistory.price p = NegInfinity \<or> isInteger (PriceHistory.price p)) \<and>
         (\<forall>rs. map (\<lambda>offer. parseFloat (total (AmadeusFlightOffer.price offer)))
                 (returnedOffers (offersFetch w)) = map Num rs \<and>
               sum_list (map abs rs) \<le> 10 ^ 300 \<longrightarrow>
            (\<forall>p \<in> set (fst (getPriceHistory e w origin' destination' s)).
               isInteger (PriceHistory.price p)))"
proof (intro conjI allI impI)
  have eq: "fst (getPriceHistory e w origin' destination' s) = synthesize e w b"
    by (rule getPriceHistory_synthesize [OF tok sample])
  show "\<forall>p \<in> set (fst (getPriceHistory e w origin' destination' s)).
      PriceHistory.price p = NaN \<or> PriceHistory.price p = PosInfinity \<or>
      PriceHistory.price p = NegInfinity \<or> isInteger (PriceHistory.price p)"
    using price_historyPoint_cases [of e w b] by (auto simp: eq set_synthesize)
  fix rs
  assume "map (\<lambda>offer. parseFloat (total (AmadeusFlightOffer.price offer)))
        (returnedOffers (offersFetch w)) = map Num rs \<and>
      sum_list (map abs rs) \<le> 10 ^ 300"
  then have parsed: "map (\<lambda>offer. parseFloat (total (AmadeusFlightOffer.price offer)))
        (returnedOffers (offersFetch w)) = map Num rs"
    and small: "sum_list (map abs rs) \<le> 10 ^ 300"
    by simp_all
  define r where "r = (if rs = [] then 250 else sum_list rs / real (length rs))"
  have b: "b = Num r"
    unfolding r_def by (rule samplePrice_mean [OF sample parsed small])
  have "\<bar>r\<bar> \<le> 10 ^ 300"
    unfolding r_def by (rule mean_bounded [OF small])
  then have "isInteger (PriceHistory.price (historyPoint e w (Num r) i))" for i
    using price_historyPoint_Num [of r e w i] by (auto simp: isInteger_def)
  then show "\<forall>p \<in> set (fst (getPriceHistory e w origin' destination' s)).
      isInteger (PriceHistory.price p)"
    by (auto simp: eq b set_synthesize)
qed

theorem getPriceHistory_integer_prices_witness:
  "list_all (\<lambda>p. isInteger (PriceHistory.price p))
     (fst (getPriceHistory exampleEnv
        (exampleIo\<lparr>offersFetch :=
           Response True (Some \<lparr>AmadeusFlightOffersResponse.data = Some [offerX, offerTwoSegments]\<rparr>)\<rparr>)
        ''JFK'' ''LAX'' validService))"
proof -
  let ?w = "exampleIo\<lparr>offersFetch :=
           Response True (Some \<lparr>AmadeusFlightOffersResponse.data = Some [offerX, offerTwoSegments]\<rparr>)\<rparr>"
  have tok: "getAccessToken exampleEnv ?w (loadStoredToken exampleEnv ?w validService)
      = (Inr ''tok'', validService)"
    by (simp add: exampleIo_def)
  have sample: "samplePrice (offersFetch ?w) = Inr (averagePrice [offerX, offerTwoSegments])"
    by (simp add: samplePrice_def)
  have parsed: "map (\<lambda>offer. parseFloat (total (AmadeusFlightOffer.price offer)))
      (returnedOffers (offersFetch ?w)) = map Num [19999 / 100, 621 / 2] \<and>
      sum_list (map abs [19999 / 100, 621 / 2 :: real]) \<le> 10 ^ 300"
    by (simp add: returnedOffers_def offerX_def offerTwoSegments_def parseFloat_199_99
        parseFloat_310_50)
  from getPriceHistory_integer_prices [OF tok sample, of "''JFK''" "''LAX''"] parsed
  show ?thesis
    unfolding list_all_iff by blast
qed

text \<open>The claim C9 as it was stated fails as soon as one returned total is not a
  number: the mean is \<open>NaN\<close>, and no price of the result is a whole number.\<close>

theorem getPriceHistory_fractional_nan:
  "averagePrice [offerX, offerNoPrice] = NaN \<and>
   map (\<lambda>p. isInteger (PriceHistory.price p))
     (fst (getPriceHistory exampleEnv
        (exampleIo\<lparr>offersFetch :=
           Response True (Some \<lparr>AmadeusFlightOffersResponse.data = Some [offerX, offerNoPrice]\<rparr>)\<rparr>)
        ''JFK'' ''LAX'' validService)) = replicate 31 False"
proof -
  let ?w = "exampleIo\<lparr>offersFetch :=
           Response True (Some \<lparr>AmadeusFlightOffersResponse.data = Some [offerX, offerNoPrice]\<rparr>)\<rparr>"
  have avg: "averagePrice [offerX, offerNoPrice] = NaN"
    by (simp add: averagePrice_def offerNoPrice_def offerX_def parseFloat_N_A parseFloat_199_99
        js_add_def js_div_def toNumber_def overflowThreshold_def)
  have tok: "getAccessToken exampleEnv ?w (loadStoredToken exampleEnv ?w validService)
      = (Inr ''tok'', validService)"
    by (simp add: exampleIo_def)
  have sample: "samplePrice (offersFetch ?w) = Inr NaN"
    by (simp add: samplePrice_def avg)
  have "map (\<lambda>p. isInteger (PriceHistory.price p)) (synthesize exampleEnv ?w NaN)
      = map isInteger (map PriceHistory.price (synthesize exampleEnv ?w NaN))"
    by simp
  also have "\<dots> = replicate 31 False"
    by (simp only: map_price_synthesize_NaN) (simp add: isInteger_def)
  finally show ?thesis
    by (simp add: getPriceHistory_synthesize [OF tok sample] avg)
qed

text \<open>
  C4. The point generated \<open>k\<close>-th, counted from 0, belongs to the pass with loop counter
  \<open>30 - k\<close>; the oldest day is \<open>k = 0\<close>, today is \<open>k = 30\<close>. Its
  \<open>daysFromToday\<close> is \<open>k\<close>, the urgency multiplier that enters its price is 1.2 for
  \<open>k < 7\<close>, 1.1 for \<open>k < 14\<close> and 1 otherwise. On a host with a constant offset
  from UTC and with one clock reading for the whole loop, that point is also the
  \<open>k\<close>-th point of the result and its date is \<open>k\<close> days after the date of the
  oldest point: \<open>k\<close> is the distance from the oldest day of the window, not from
  today.
\<close>

theorem urgency_anchored_at_oldest_day:
  assumes "k \<le> 30"
  shows "historyLoop e w b 30 [] ! k = historyPoint e w b (30 - k) \<and>
         daysFromToday (30 - k) = int k \<and>
         urgencyMultiplier (30 - k) = (if k < 7 then 12 / 10 else if k < 14 then 11 / 10 else 1) \<and>
         PriceHistory.price (historyLoop e w b 30 [] ! k) =
           Math_max
             (Math_round
                (js_mul
                   (js_mul
                      (js_mul (js_mul b (Num (1 + randomVariation w (30 - k))))
                         (Num (weekendMultiplier e (setDate_back e (now_loop w (30 - k)) (30 - k)))))
                      (Num (seasonalMultiplier e (setDate_back e (now_loop w (30 - k)) (30 - k)))))
                   (Num (if k < 7 then 12 / 10 else if k < 14 then 11 / 10 else 1))))
             (Math_round (js_mul b (Num (6 / 10)))) \<and>
         ((\<forall>t u. LocalTZA e t u = c) \<and> (\<forall>i. now_loop w i = t0) \<longrightarrow>
            synthesize e w b ! k = historyPoint e w b (30 - k) \<and>
            PriceHistory.date (synthesize e w b ! k) = PriceHistory.date (synthesize e w b ! 0) + int k)"
proof -
  have d: "daysFromToday (30 - k) = int k"
    using assms by (simp add: daysFromToday_def)
  have u: "urgencyMultiplier (30 - k) = (if k < 7 then 12 / 10 else if k < 14 then 11 / 10 else 1)"
    by (simp add: urgencyMultiplier_def d)
  have p: "PriceHistory.price (historyPoint e w b (30 - k)) =
           Math_max
             (Math_round
                (js_mul
                   (js_mul
                      (js_mul (js_mul b (Num (1 + randomVariation w (30 - k))))
                         (Num (weekendMultiplier e (setDate_back e (now_loop w (30 - k)) (30 - k)))))
                      (Num (seasonalMultiplier e (setDate_back e (now_loop w (30 - k)) (30 - k)))))
                   (Num (if k < 7 then 12 / 10 else if k < 14 then 11 / 10 else 1))))
             (Math_round (js_mul b (Num (6 / 10))))"
    by (simp only: historyPoint_def Let_def u [symmetric] PriceHistory.simps)
  have s: "synthesize e w b ! k = historyPoint e w b (30 - k) \<and>
      PriceHistory.date (synthesize e w b ! k) = PriceHistory.date (synthesize e w b ! 0) + int k"
    if tz: "\<forall>t u. LocalTZA e t u = c" and clock: "\<forall>i. now_loop w i = t0"
  proof -
    have mono: "\<forall>i j. i \<le> j \<and> j \<le> 30 \<longrightarrow> now_loop w j \<le> now_loop w i"
      using clock by simp
    have pass: "\<forall>i\<le>30. LocalTZA e (now_loop w i) True =
        LocalTZA e (LocalTime e (now_loop w i) - int i * msPerDay) False"
      using tz by simp
    have syn: "synthesize e w b = historyLoop e w b 30 []"
      by (rule synthesize_generated [OF pass mono])
    show ?thesis
      using assms clock
      by (simp add: syn historyLoop_nth date_historyPoint_const_offset [OF tz])
  qed
  show ?thesis
    using historyLoop_nth [OF assms, of e w b] d u p s
    by (simp only:) blast
qed

theorem urgency_anchored_at_oldest_day_witness:
  "urgencyMultiplier 30 = 12 / 10 \<and> urgencyMultiplier 0 = 1 \<and>
   synthesize exampleEnv exampleIo (Num 250) ! 0 = historyPoint exampleEnv exampleIo (Num 250) 30 \<and>
   synthesize exampleEnv exampleIo (Num 250) ! 30 = historyPoint exampleEnv exampleIo (Num 250) 0 \<and>
   PriceHistory.date (synthesize exampleEnv exampleIo (Num 250) ! 30) =
     PriceHistory.date (synthesize exampleEnv exampleIo (Num 250) ! 0) + 30"
proof -
  have tz: "\<forall>t u. LocalTZA exampleEnv t u = 0"
    by (simp add: exampleEnv_def)
  have clock: "\<forall>i. now_loop exampleIo i = 1793620800400"
    by (simp add: exampleIo_def)
  have hyp: "(\<forall>t u. LocalTZA exampleEnv t u = 0) \<and> (\<forall>i. now_loop exampleIo i = 1793620800400)"
    using tz clock by blast
  have le: "(0::nat) \<le> 30" "(30::nat) \<le> 30"
    by simp_all
  note oldest = urgency_anchored_at_oldest_day [OF le(1), of exampleEnv exampleIo "Num 250" 0 1793620800400]
  note today = urgency_anchored_at_oldest_day [OF le(2), of exampleEnv exampleIo "Num 250" 0 1793620800400]
  have "urgencyMultiplier (30 - 0) = (if (0::nat) < 7 then 12 / 10 else if (0::nat) < 14 then 11 / 10 else 1)"
    using oldest by blast
  moreover have "urgencyMultiplier (30 - 30) =
      (if (30::nat) < 7 then 12 / 10 else if (30::nat) < 14 then 11 / 10 else 1)"
    using today by blast
  moreover have "synthesize exampleEnv exampleIo (Num 250) ! 0 =
      historyPoint exampleEnv exampleIo (Num 250) (30 - 0)"
    using oldest hyp by blast
  moreover have "synthesize exampleEnv exampleIo (Num 250) ! 30 =
      historyPoint exampleEnv exampleIo (Num 250) (30 - 30)"
    using today hyp by blast
  moreover have "PriceHistory.date (synthesize exampleEnv exampleIo (Num 250) ! 30) =
      PriceHistory.date (synthesize exampleEnv exampleIo (Num 250) ! 0) + int 30"
    using today hyp by blast
  ultimately show ?thesis
    by simp
qed

end
